theory Spec2Isabelle
  imports Complex_Main
begin

section \<open>learn\_image\_embeddings.py: values of the interpreter and the framework\<close>

text \<open>
  The script is glue code around Keras, numpy, pickle and the sibling modules
  \<^verbatim>\<open>utils\<close> and \<^verbatim>\<open>datasets\<close>. Its own logic is the control flow: which model is
  assembled, which loss and metric are chosen, which calls are made in which order with
  which arguments, and which exceptions are caught. The embedding keeps exactly that:
  every branch, every raise and every call of the script is a branch, an error value or
  an event of the model; what a library call computes is an argument of the model.
  A call into the framework is taken to return, except where the script handles its
  exception (the two save calls) or where Python itself raises in the script's own
  expressions (a missing key, an index out of range, \<^verbatim>\<open>int\<close> of a string that is
  no number, a division by zero, an unbound name, a file that cannot be read).

  Python floats are modelled as \<^typ>\<open>real\<close>: the script compares them with zero,
  passes them on, and forms one quotient; rounding, infinities and NaN are not modelled.
  Python ints are \<^typ>\<open>int\<close>.
\<close>

datatype error =
    KeyError string
  | IndexError
  | ValueError
  | TypeError
  | AttributeError
  | NameError string
  | ZeroDivisionError
  | IOError string
  | FrameworkError
  | Uncaught string

text \<open>
  \<^verbatim>\<open>if s:\<close> on an optional string argument of argparse: \<^verbatim>\<open>None\<close> and the empty
  string are false. \<open>nonempty s\<close> is the string when the test is true.
\<close>

definition nonempty :: "string option \<Rightarrow> string option" where
  "nonempty s = (case s of None \<Rightarrow> None | Some p \<Rightarrow> if p = [] then None else Some p)"

text \<open>\<^verbatim>\<open>xs[i]\<close> on a Python list: a negative index counts from the end.\<close>

definition py_index :: "'a list \<Rightarrow> int \<Rightarrow> error + 'a" where
  "py_index xs i =
     (if 0 \<le> i \<and> i < int (length xs) then Inr (xs ! nat i)
      else if i < 0 \<and> - int (length xs) \<le> i then Inr (xs ! nat (i + int (length xs)))
      else Inl IndexError)"

text \<open>\<^verbatim>\<open>s.endswith(suffix)\<close>.\<close>

definition endswith :: "string \<Rightarrow> string \<Rightarrow> bool" where
  "endswith s suffix =
     (length suffix \<le> length s \<and> drop (length s - length suffix) s = suffix)"

subsection \<open>Objects read from the pickle file\<close>

text \<open>
  A numpy array is its \<^verbatim>\<open>shape\<close> and its entries along the first axis (for the
  embedding matrix: one row per class). A pickle can also hold a dictionary with string
  keys, a list of labels, or some other object.
\<close>

datatype pyobj =
    Ndarray "nat list" "real list list"
  | Pydict "(string \<times> pyobj) list"
  | Pylist "string list"
  | Pyother

text \<open>
  \<^verbatim>\<open>obj['key']\<close>: a dictionary without the key raises KeyError; an array refuses a
  string as an index (IndexError), other objects are not subscriptable by it (TypeError).
\<close>

definition getitem_str :: "pyobj \<Rightarrow> string \<Rightarrow> error + pyobj" where
  "getitem_str obj k =
     (case obj of
        Pydict kvs \<Rightarrow> (case map_of kvs k of None \<Rightarrow> Inl (KeyError k) | Some v \<Rightarrow> Inr v)
      | Ndarray sh rs \<Rightarrow> Inl IndexError
      | _ \<Rightarrow> Inl TypeError)"

text \<open>
  \<^verbatim>\<open>obj.shape[1]\<close>: only an array has a shape (AttributeError otherwise); the shape
  is a tuple, indexed as a list is.
\<close>

definition shape_1 :: "pyobj \<Rightarrow> error + nat" where
  "shape_1 obj =
     (case obj of
        Ndarray sh rs \<Rightarrow> py_index sh 1
      | _ \<Rightarrow> Inl AttributeError)"

text \<open>
  \<^verbatim>\<open>embedding[y]\<close> for an integer label array \<^verbatim>\<open>y\<close>: numpy selects along the first
  axis, a negative label counts from the end, a label out of range raises IndexError.
\<close>

fun take_rows :: "real list list \<Rightarrow> int list \<Rightarrow> error + real list list" where
  "take_rows rs [] = Inr []"
| "take_rows rs (c # cs) =
     (case py_index rs c of
        Inl e \<Rightarrow> Inl e
      | Inr r \<Rightarrow> (case take_rows rs cs of Inl e \<Rightarrow> Inl e | Inr out \<Rightarrow> Inr (r # out)))"

definition getitem :: "pyobj \<Rightarrow> int list \<Rightarrow> error + real list list" where
  "getitem embedding y =
     (case embedding of
        Ndarray sh rs \<Rightarrow> take_rows rs y
      | _ \<Rightarrow> Inl TypeError)"

section \<open>transform\_inputs\<close>

text \<open>
  The target that a batch is given: the class vectors alone, or the two-element list of
  the class vectors and the one-hot labels.
\<close>

datatype 'c target =
    Embedded "real list list"
  | Embedded_and_categorical "real list list" 'c

text \<open>
  \<^verbatim>\<open>
  def transform_inputs(X, y, embedding, num_classes = None):
      return (X, embedding[y]) if num_classes is None else (X, [embedding[y], keras.utils.to_categorical(y, num_classes)])
  \<close>
  \<^verbatim>\<open>keras.utils.to_categorical\<close> is the framework's; it is the first argument here.
  The list display evaluates \<^verbatim>\<open>embedding[y]\<close> first.
\<close>

definition transform_inputs ::
  "(int list \<Rightarrow> int \<Rightarrow> error + 'c) \<Rightarrow> 'x \<Rightarrow> int list \<Rightarrow> pyobj \<Rightarrow> int option
     \<Rightarrow> error + ('x \<times> 'c target)" where
  "transform_inputs to_categorical X y embedding num_classes =
     (case num_classes of
        None \<Rightarrow>
          (case getitem embedding y of
             Inl e \<Rightarrow> Inl e
           | Inr vs \<Rightarrow> Inr (X, Embedded vs))
      | Some n \<Rightarrow>
          (case getitem embedding y of
             Inl e \<Rightarrow> Inl e
           | Inr vs \<Rightarrow>
               (case to_categorical y n of
                  Inl e \<Rightarrow> Inl e
                | Inr onehot \<Rightarrow> Inr (X, Embedded_and_categorical vs onehot))))"

text \<open>
  \<^verbatim>\<open>
  batch_transform_kwargs = {
      'embedding' : embedding,
      'num_classes' : data_generator.num_classes if args.cls_weight > 0 else None
  }
  \<close>
\<close>

record kwargs =
  kw_embedding :: pyobj
  kw_num_classes :: "int option"

definition batch_transform_kwargs :: "pyobj \<Rightarrow> int \<Rightarrow> real \<Rightarrow> kwargs" where
  "batch_transform_kwargs embedding dg_num_classes cls_weight =
     \<lparr> kw_embedding = embedding,
       kw_num_classes = (if cls_weight > 0 then Some dg_num_classes else None) \<rparr>"

text \<open>The data generator calls \<^verbatim>\<open>batch_transform(X, y, **batch_transform_kwargs)\<close>.\<close>

definition call_batch_transform ::
  "(int list \<Rightarrow> int \<Rightarrow> error + 'c) \<Rightarrow> kwargs \<Rightarrow> 'x \<Rightarrow> int list \<Rightarrow> error + ('x \<times> 'c target)" where
  "call_batch_transform to_categorical kw X y =
     transform_inputs to_categorical X y (kw_embedding kw) (kw_num_classes kw)"

text \<open>The vector part of a target.\<close>

fun embedded_part :: "'c target \<Rightarrow> real list list" where
  "embedded_part (Embedded vs) = vs"
| "embedded_part (Embedded_and_categorical vs c) = vs"

text \<open>
  An instance of \<^verbatim>\<open>keras.utils.to_categorical(y, num_classes)\<close> for a positive
  number of classes, for running the definitions on examples: one row per label, with a
  one at the label's column. Keras writes the ones by numpy indexing, so a label outside
  the columns raises IndexError.
\<close>

definition to_categorical :: "int list \<Rightarrow> int \<Rightarrow> error + real list list" where
  "to_categorical y num_classes =
     (if \<forall>c \<in> set y. - num_classes \<le> c \<and> c < num_classes
      then Inr (map (\<lambda>c. map (\<lambda>j. if int j = c mod num_classes then 1 else 0)
                              [0 ..< nat num_classes]) y)
      else Inl IndexError)"

section \<open>Loss and metric\<close>

text \<open>
  \<^verbatim>\<open>
  arggroup.add_argument('--loss', type = str, default = 'inv_corr',
                        choices = ['mse', 'inv_corr', 'unnorm_corr', 'softmax_corr'], ...)
  \<close>
\<close>

definition loss_choices :: "string list" where
  "loss_choices = [''mse'', ''inv_corr'', ''unnorm_corr'', ''softmax_corr'']"

text \<open>
  The losses and metrics that the script names: three functions of \<^verbatim>\<open>utils\<close> and the
  two that Keras knows by their string.
\<close>

datatype loss_fn = Inv_correlation | Squared_distance | Categorical_crossentropy

datatype metric_fn = Accuracy | Nn_accuracy pyobj bool

text \<open>
  \<^verbatim>\<open>
  if args.loss.endswith('_corr'):
      loss = utils.inv_correlation
      metric = 'accuracy' if args.loss == 'softmax_corr' else utils.nn_accuracy(embedding, dot_prod_sim = True)
  else:
      loss = utils.squared_distance
      metric = utils.nn_accuracy(embedding, dot_prod_sim = False)
  \<close>
\<close>

definition select_loss :: "string \<Rightarrow> loss_fn" where
  "select_loss loss_arg =
     (if endswith loss_arg ''_corr'' then Inv_correlation else Squared_distance)"

definition select_metric :: "pyobj \<Rightarrow> string \<Rightarrow> metric_fn" where
  "select_metric embedding loss_arg =
     (if endswith loss_arg ''_corr''
      then (if loss_arg = ''softmax_corr'' then Accuracy else Nn_accuracy embedding True)
      else Nn_accuracy embedding False)"

section \<open>Keras models as the script sees them\<close>

text \<open>
  The script reads from a model its \<^verbatim>\<open>inputs\<close>, its \<^verbatim>\<open>layers\<close> (a list, in
  the model's order), its \<^verbatim>\<open>output\<close>, and from a layer its \<^verbatim>\<open>name\<close> and
  its \<^verbatim>\<open>output\<close> tensor (\<open>layer_output\<close>). It creates four kinds of layers
  itself; the layers of a network that \<^verbatim>\<open>utils.build_network\<close> or
  \<^verbatim>\<open>keras.models.load_model\<close> returned are of a fifth kind. A tensor is either a
  tensor inside such a network, or the result of calling one of the script's layers on a
  tensor. A layer created without \<^verbatim>\<open>name =\<close> has a name that Keras
  generates (name \<open>None\<close> here); the script never refers to such a name.
  Weights and \<^verbatim>\<open>trainable\<close> flags live in the framework.
\<close>

datatype layer_kind =
    Network_layer
  | Lambda string
  | Activation string
  | BatchNormalization
  | Dense int string real

datatype tensor =
    Network_tensor string
  | Call layer_kind "string option" tensor

record layer =
  name :: "string option"
  kind :: layer_kind
  layer_output :: tensor

record model =
  inputs :: "tensor list"
  layers :: "layer list"
  outputs :: "tensor list"

text \<open>\<^verbatim>\<open>keras.layers.K(..., name = n)(t)\<close>: the new layer, whose output is the call.\<close>

definition call_layer :: "layer_kind \<Rightarrow> string option \<Rightarrow> tensor \<Rightarrow> layer" where
  "call_layer k n t = \<lparr> name = n, kind = k, layer_output = Call k n t \<rparr>"

text \<open>
  \<^verbatim>\<open>model.output\<close> is the output tensor of a model with one output. For a model with
  several outputs it is a list, which the layer call and \<^verbatim>\<open>keras.models.Model\<close>
  refuse with an exception of the framework.
\<close>

definition model_output :: "model \<Rightarrow> error + tensor" where
  "model_output m = (case outputs m of [t] \<Rightarrow> Inr t | _ \<Rightarrow> Inl FrameworkError)"

text \<open>
  \<^verbatim>\<open>model.get_layer(name)\<close>: the first layer of that name; ValueError when the name is
  empty or no layer has it.
\<close>

definition get_layer :: "model \<Rightarrow> string \<Rightarrow> error + layer" where
  "get_layer m s =
     (if s = [] then Inl ValueError
      else (case find (\<lambda>l. name l = Some s) (layers m) of
              None \<Rightarrow> Inl ValueError
            | Some l \<Rightarrow> Inr l))"

text \<open>
  \<^verbatim>\<open>keras.models.Model(m.inputs, outs)\<close>, where \<open>outs\<close> was computed from tensors of
  \<open>m\<close> through the new layers \<open>new\<close>: Keras collects the layers that the outputs depend
  on, the layers nearest to the outputs last. A new layer on top of the output of \<open>m\<close>
  is therefore the last one; where the new layers branch off an inner layer, their place
  among the old ones is not determined here, and the script never reads it.
\<close>

definition Model :: "model \<Rightarrow> layer list \<Rightarrow> tensor list \<Rightarrow> model" where
  "Model m new outs = \<lparr> inputs = inputs m, layers = layers m @ new, outputs = outs \<rparr>"

section \<open>cls\_model\<close>

text \<open>
  \<^verbatim>\<open>
  def cls_model(embed_model, num_classes, cls_base = None):
      if cls_base is None:
          base = embed_model.output
      else:
          try:
              base = embed_model.layers[int(cls_base)].output
          except ValueError:
              base = embed_model.get_layer(cls_base).output
      x = keras.layers.Activation('relu')(base)
      x = keras.layers.BatchNormalization()(x)
      x = keras.layers.Dense(num_classes, activation = 'softmax', kernel_regularizer = keras.regularizers.l2(5e-4), name = 'prob')(x)
      return keras.models.Model(embed_model.inputs, [embed_model.output, x])
  \<close>
  The builtin \<^verbatim>\<open>int\<close> is the argument \<open>py_int\<close>: \<open>Some i\<close> where \<^verbatim>\<open>int(s)\<close>
  is \<open>i\<close>, \<open>None\<close> where it raises ValueError (which strings it accepts beyond
  signed decimal digits depends on the interpreter's version). The IndexError of the list
  access is not a ValueError and leaves the function.
\<close>

definition cls_base_tensor ::
  "(string \<Rightarrow> int option) \<Rightarrow> model \<Rightarrow> string option \<Rightarrow> error + tensor" where
  "cls_base_tensor py_int embed_model cls_base =
     (case cls_base of
        None \<Rightarrow> model_output embed_model
      | Some s \<Rightarrow>
          (case py_int s of
             Some i \<Rightarrow>
               (case py_index (layers embed_model) i of
                  Inl e \<Rightarrow> Inl e
                | Inr l \<Rightarrow> Inr (layer_output l))
           | None \<Rightarrow>
               (case get_layer embed_model s of
                  Inl e \<Rightarrow> Inl e
                | Inr l \<Rightarrow> Inr (layer_output l))))"

text \<open>The three layers of the classifier, called in turn on \<open>base\<close>.\<close>

definition classifier :: "int \<Rightarrow> tensor \<Rightarrow> layer list" where
  "classifier num_classes base =
     (let relu = call_layer (Activation ''relu'') None base;
          bn = call_layer BatchNormalization None (layer_output relu);
          prob = call_layer (Dense num_classes ''softmax'' (5 / 10000)) (Some ''prob'') (layer_output bn)
      in [relu, bn, prob])"

definition cls_model ::
  "(string \<Rightarrow> int option) \<Rightarrow> model \<Rightarrow> int \<Rightarrow> string option \<Rightarrow> error + model" where
  "cls_model py_int embed_model num_classes cls_base =
     (case cls_base_tensor py_int embed_model cls_base of
        Inl e \<Rightarrow> Inl e
      | Inr base \<Rightarrow>
          (let new = classifier num_classes base; x = layer_output (last new)
           in case model_output embed_model of
                Inl e \<Rightarrow> Inl e
              | Inr out \<Rightarrow> Inr (Model embed_model new [out, x])))"

text \<open>
  An instance of the builtin \<^verbatim>\<open>int\<close> on strings, for running the definitions on
  examples: an optional sign and decimal digits.
\<close>

definition digit_val :: "char \<Rightarrow> nat option" where
  "digit_val c = map_of (zip ''0123456789'' [0 ..< 10]) c"

fun decimal :: "nat \<Rightarrow> string \<Rightarrow> nat option" where
  "decimal acc [] = Some acc"
| "decimal acc (c # cs) =
     (case digit_val c of None \<Rightarrow> None | Some d \<Rightarrow> decimal (10 * acc + d) cs)"

definition int_of_str :: "string \<Rightarrow> int option" where
  "int_of_str s =
     (case s of
        [] \<Rightarrow> None
      | c # cs \<Rightarrow>
          (if c = CHR ''-'' then (if cs = [] then None else map_option (\<lambda>n. - int n) (decimal 0 cs))
           else if c = CHR ''+'' then (if cs = [] then None else map_option int (decimal 0 cs))
           else map_option int (decimal 0 s)))"

section \<open>The script: command line and surroundings\<close>

text \<open>
  The namespace that \<^verbatim>\<open>parser.parse_args()\<close> returns, one field per argument, with
  the argument's Python type; an argument whose default is \<^verbatim>\<open>None\<close> is an option.
  \<^verbatim>\<open>sgd_lr\<close> is added by \<^verbatim>\<open>utils.add_lr_schedule_arguments\<close>.
\<close>

record args =
  dataset :: string
  data_root :: string
  embedding :: string
  architecture :: string
  loss :: string
  cls_weight :: real
  cls_base :: "string option"
  lr_schedule :: string
  clipgrad :: real
  max_decay :: real
  nesterov :: bool
  epochs :: "int option"
  batch_size :: int
  val_batch_size :: "int option"
  snapshot :: "string option"
  initial_epoch :: int
  finetune :: "string option"
  finetune_init :: int
  gpus :: int
  read_workers :: int
  queue_size :: int
  gpu_merge :: bool
  model_dump :: "string option"
  weight_dump :: "string option"
  feature_dump :: "string option"
  log_dir :: "string option"
  no_progress :: bool
  sgd_lr :: real

text \<open>What the script reads from the object that \<^verbatim>\<open>get_data_generator\<close> returns.\<close>

record data_generator =
  num_classes :: int
  num_train :: int
  num_test :: int

datatype device = Default_device | Cpu0

text \<open>
  \<^verbatim>\<open>par_model\<close> is the model itself or \<^verbatim>\<open>keras.utils.multi_gpu_model(model, gpus, cpu_merge)\<close>;
  \<open>cpu_merge\<close> is \<open>None\<close> where the call leaves it to its default.
\<close>

datatype par_model = Base model | Multi_gpu_model model int "bool option"

datatype callback =
    Schedule_callback string
  | TensorBoard string bool
  | ModelCheckpoint string
  | TemplateModelCheckpoint model string

text \<open>
  The batch sources of the data generator: \<^verbatim>\<open>train_sequence(batch_size, ...)\<close>,
  \<^verbatim>\<open>test_sequence(batch_size, ...)\<close>, both with \<open>transform_inputs\<close> and the keyword
  arguments, and \<^verbatim>\<open>flow_test(batch_size, shuffle)\<close>. The script passes
  \<^verbatim>\<open>args.val_batch_size\<close> to \<^verbatim>\<open>test_sequence\<close>, whose type is an option.
\<close>

datatype sequence =
    Train_sequence int kwargs
  | Test_sequence "int option" kwargs
  | Flow_test int bool

text \<open>\<^verbatim>\<open>keras.optimizers.SGD(lr, decay, momentum, nesterov, clipnorm)\<close>.\<close>

datatype sgd = SGD real "real option" real bool real

datatype losses = One_loss loss_fn | Loss_dict "(string \<times> loss_fn) list"

datatype metrics = Metric_list "metric_fn list" | Metric_dict "(string \<times> metric_fn) list"

record compile_args =
  optimizer :: sgd
  losses :: losses
  loss_weights :: "(string \<times> real) list option"
  metrics :: metrics

record fit_args =
  generator :: sequence
  validation_data :: sequence
  fit_epochs :: int
  fit_initial_epoch :: "int option"
  callbacks :: "callback list option"
  verbose :: bool
  max_queue_size :: int
  workers :: int
  use_multiprocessing :: bool

text \<open>
  What a call may raise: an exception that derives from \<^verbatim>\<open>Exception\<close>, with its
  message, or one that does not (KeyboardInterrupt, SystemExit), with its name.
\<close>

datatype raised = Exception string | BaseException string

text \<open>
  The surroundings of a run: the builtin \<^verbatim>\<open>int\<close> on strings, the file system
  (\<^verbatim>\<open>pickle.load\<close> of an opened file, \<open>None\<close> where the file cannot be read;
  \<^verbatim>\<open>os.path.exists\<close>; \<^verbatim>\<open>os.path.isdir\<close>), the modules \<^verbatim>\<open>datasets\<close> and
  \<^verbatim>\<open>utils\<close>, \<^verbatim>\<open>keras.models.load_model\<close>, and what the two save calls raise.
\<close>

record env =
  builtin_int :: "string \<Rightarrow> int option"
  pickle_load :: "string \<Rightarrow> pyobj option"
  path_exists :: "string \<Rightarrow> bool"
  path_isdir :: "string \<Rightarrow> bool"
  get_data_generator :: "string \<Rightarrow> string \<Rightarrow> pyobj \<Rightarrow> data_generator"
  build_network :: "nat \<Rightarrow> string \<Rightarrow> model"
  load_model :: "string \<Rightarrow> model"
  get_lr_schedule :: "string \<Rightarrow> int \<Rightarrow> int \<Rightarrow> args \<Rightarrow> callback list \<times> int"
  save_weights :: "model \<Rightarrow> string \<Rightarrow> raised option"
  save :: "model \<Rightarrow> string \<Rightarrow> raised option"

text \<open>
  The calls that a run makes, in their order. A model is named by its value; the
  framework keeps its weights.
\<close>

datatype event =
    Set_session
  | Print string
  | Open_and_unpickle string
  | Get_data_generator string string pyobj
  | Load_model device string
  | Build_network device nat string
  | Summary model
  | Load_weights model string
  | Train_only "string list"
  | Train_last_layer_of model
  | Train_all
  | Compile par_model compile_args
  | Fit_generator par_model fit_args
  | Get_lr_schedule string int int
  | Rmtree string
  | Evaluate_generator_and_print par_model sequence
  | Predict_generator par_model sequence "int option"
  | Print_average_accuracy
  | Save_weights model string
  | Save model string
  | Pickle_dump_features string bool

text \<open>
  A part of a run: the calls it made, and its value or the exception that ended it.
\<close>

type_synonym 'a run = "event list \<times> (error + 'a)"

definition return :: "'a \<Rightarrow> 'a run" where
  "return x = ([], Inr x)"

definition emit :: "event list \<Rightarrow> unit run" where
  "emit es = (es, Inr ())"

definition lift :: "error + 'a \<Rightarrow> 'a run" where
  "lift r = ([], r)"

definition and_then :: "'a run \<Rightarrow> ('a \<Rightarrow> 'b run) \<Rightarrow> 'b run" where
  "and_then m f =
     (case m of
        (es, Inl e) \<Rightarrow> (es, Inl e)
      | (es, Inr x) \<Rightarrow> (case f x of (es', r) \<Rightarrow> (es @ es', r)))"

section \<open>The script: its parts in order\<close>

text \<open>
  \<^verbatim>\<open>
  if args.val_batch_size is None:
      args.val_batch_size = args.batch_size
  \<close>
\<close>

definition default_val_batch_size :: "args \<Rightarrow> args" where
  "default_val_batch_size a =
     (case val_batch_size a of
        None \<Rightarrow> a\<lparr> val_batch_size := Some (batch_size a) \<rparr>
      | Some b \<Rightarrow> a)"

text \<open>
  \<^verbatim>\<open>
  with open(args.embedding, 'rb') as pf:
      embedding = pickle.load(pf)
      embed_labels = embedding['ind2label']
      embedding = embedding['embedding']
  \<close>
\<close>

definition load_class_embeddings :: "env \<Rightarrow> args \<Rightarrow> (pyobj \<times> pyobj) run" where
  "load_class_embeddings env a =
     and_then (emit [Open_and_unpickle (embedding a)]) (\<lambda>_.
       case pickle_load env (embedding a) of
         None \<Rightarrow> lift (Inl (IOError (embedding a)))
       | Some obj \<Rightarrow>
           (case getitem_str obj ''ind2label'' of
              Inl e \<Rightarrow> lift (Inl e)
            | Inr embed_labels \<Rightarrow>
                (case getitem_str obj ''embedding'' of
                   Inl e \<Rightarrow> lift (Inl e)
                 | Inr emb \<Rightarrow> return (embed_labels, emb))))"

text \<open>
  \<^verbatim>\<open>keras.models.Model(model.inputs, layer(model.output))\<close> for a new named layer.
\<close>

definition wrap_model :: "model \<Rightarrow> layer_kind \<Rightarrow> string \<Rightarrow> error + model" where
  "wrap_model m k n =
     (case model_output m of
        Inl e \<Rightarrow> Inl e
      | Inr out \<Rightarrow>
          (let l = call_layer k (Some n) out in Inr (Model m [l] [layer_output l])))"

text \<open>
  The block that the script has twice, once for each device (lines 112 to 125 and 129 to
  142):
  \<^verbatim>\<open>
  if args.snapshot and os.path.exists(args.snapshot):
      print('Resuming from snapshot {}'.format(args.snapshot))
      model = keras.models.load_model(args.snapshot, custom_objects = utils.get_custom_objects(args.architecture), compile = False)
  else:
      embed_model = utils.build_network(embedding.shape[1], args.architecture)
      model = embed_model
      if args.loss == 'inv_corr':
          model = keras.models.Model(model.inputs, keras.layers.Lambda(utils.l2norm, name = 'l2norm')(model.output))
          embedding_layer_name = 'l2norm'
      elif args.loss == 'softmax_corr':
          model = keras.models.Model(model.inputs, keras.layers.Activation('softmax', name = 'softmax')(model.output))
          embedding_layer_name = 'softmax'
      if args.cls_weight > 0:
          model = cls_model(model, data_generator.num_classes, args.cls_base)
  \<close>
  Its value is \<open>model\<close>, \<open>embedding_layer_name\<close> (\<open>'embedding'\<close> before the block)
  and \<open>embed_model\<close>, which stays unbound when the snapshot is loaded.
\<close>

definition resume_from :: "env \<Rightarrow> args \<Rightarrow> string option" where
  "resume_from env a =
     (case nonempty (snapshot a) of
        None \<Rightarrow> None
      | Some p \<Rightarrow> if path_exists env p then Some p else None)"

definition normalized_model :: "model \<Rightarrow> string \<Rightarrow> error + (model \<times> string)" where
  "normalized_model embed_model loss_arg =
     (if loss_arg = ''inv_corr'' then
        (case wrap_model embed_model (Lambda ''l2norm'') ''l2norm'' of
           Inl e \<Rightarrow> Inl e | Inr m \<Rightarrow> Inr (m, ''l2norm''))
      else if loss_arg = ''softmax_corr'' then
        (case wrap_model embed_model (Activation ''softmax'') ''softmax'' of
           Inl e \<Rightarrow> Inl e | Inr m \<Rightarrow> Inr (m, ''softmax''))
      else Inr (embed_model, ''embedding''))"

definition build_model ::
  "env \<Rightarrow> args \<Rightarrow> pyobj \<Rightarrow> data_generator \<Rightarrow> device \<Rightarrow> (model \<times> string \<times> model option) run" where
  "build_model env a emb dg dev =
     (case resume_from env a of
        Some p \<Rightarrow>
          and_then (emit [Print (''Resuming from snapshot '' @ p), Load_model dev p]) (\<lambda>_.
            return (load_model env p, ''embedding'', None))
      | None \<Rightarrow>
        and_then (lift (shape_1 emb)) (\<lambda>dimension.
        and_then (emit [Build_network dev dimension (architecture a)]) (\<lambda>_.
          let embed_model = build_network env dimension (architecture a) in
          and_then (lift (normalized_model embed_model (loss a))) (\<lambda>(m, embedding_layer_name).
            if cls_weight a > 0 then
              and_then (lift (cls_model (builtin_int env) m (num_classes dg) (cls_base a))) (\<lambda>m'.
                return (m', embedding_layer_name, Some embed_model))
            else return (m, embedding_layer_name, Some embed_model)))))"

text \<open>
  \<^verbatim>\<open>
  embedding_layer_name = 'embedding'
  if (args.gpus <= 1) or args.gpu_merge:
      [the block]
      par_model = model if args.gpus <= 1 else keras.utils.multi_gpu_model(model, gpus = args.gpus, cpu_merge = False)
  else:
      with K.tf.device('/cpu:0'):
          [the block]
      par_model = keras.utils.multi_gpu_model(model, gpus = args.gpus)
  \<close>
\<close>

record construction =
  the_model :: model
  the_par_model :: par_model
  embedding_layer_name :: string
  embed_model :: "model option"
  built_on :: device

definition construct_model :: "env \<Rightarrow> args \<Rightarrow> pyobj \<Rightarrow> data_generator \<Rightarrow> construction run" where
  "construct_model env a emb dg =
     (if gpus a \<le> 1 \<or> gpu_merge a then
        and_then (build_model env a emb dg Default_device) (\<lambda>(m, n, em).
          return \<lparr> the_model = m,
                   the_par_model =
                     (if gpus a \<le> 1 then Base m else Multi_gpu_model m (gpus a) (Some False)),
                   embedding_layer_name = n, embed_model = em, built_on = Default_device \<rparr>)
      else
        and_then (build_model env a emb dg Cpu0) (\<lambda>(m, n, em).
          return \<lparr> the_model = m,
                   the_par_model = Multi_gpu_model m (gpus a) None,
                   embedding_layer_name = n, embed_model = em, built_on = Cpu0 \<rparr>))"

text \<open>
  The arguments of \<^verbatim>\<open>par_model.compile\<close>, which the script writes twice (lines 168 to
  176 without \<open>decay\<close>, lines 201 to 209 with it):
  \<^verbatim>\<open>
  if args.cls_weight > 0:
      par_model.compile(optimizer = keras.optimizers.SGD(lr=args.sgd_lr, decay=decay, momentum=0.9, nesterov=args.nesterov, clipnorm = args.clipgrad),
                        loss = { embedding_layer_name : loss, 'prob' : 'categorical_crossentropy' },
                        loss_weights = { embedding_layer_name : 1.0, 'prob' : args.cls_weight },
                        metrics = { embedding_layer_name : metric, 'prob' : 'accuracy' })
  else:
      par_model.compile(optimizer = keras.optimizers.SGD(lr=args.sgd_lr, decay=decay, momentum=0.9, nesterov=args.nesterov, clipnorm = args.clipgrad),
                        loss = loss,
                        metrics = [metric])
  \<close>
\<close>

definition compile_arguments ::
  "args \<Rightarrow> string \<Rightarrow> loss_fn \<Rightarrow> metric_fn \<Rightarrow> real option \<Rightarrow> compile_args" where
  "compile_arguments a layer_name l m decay =
     (if cls_weight a > 0 then
        \<lparr> optimizer = SGD (sgd_lr a) decay (9 / 10) (nesterov a) (clipgrad a),
          losses = Loss_dict [(layer_name, l), (''prob'', Categorical_crossentropy)],
          loss_weights = Some [(layer_name, 1), (''prob'', cls_weight a)],
          metrics = Metric_dict [(layer_name, m), (''prob'', Accuracy)] \<rparr>
      else
        \<lparr> optimizer = SGD (sgd_lr a) decay (9 / 10) (nesterov a) (clipgrad a),
          losses = One_loss l,
          loss_weights = None,
          metrics = Metric_list [m] \<rparr>)"

text \<open>
  \<^verbatim>\<open>
  if args.finetune:
      print('Loading pre-trained weights from {}'.format(args.finetune))
      model.load_weights(args.finetune, by_name=True, skip_mismatch=True)
      if args.finetune_init > 0:
          print('Pre-training new layers')
          for layer in model.layers:
              layer.trainable = (layer.name in ('embedding', 'prob'))
          embed_model.layers[-1].trainable = True
          [compile]
          par_model.fit_generator(
                  data_generator.train_sequence(args.batch_size, batch_transform = transform_inputs, batch_transform_kwargs = batch_transform_kwargs),
                  validation_data = data_generator.test_sequence(args.val_batch_size, batch_transform = transform_inputs, batch_transform_kwargs = batch_transform_kwargs),
                  epochs = args.finetune_init, verbose = not args.no_progress,
                  max_queue_size = args.queue_size, workers = args.read_workers, use_multiprocessing = True)
          for layer in model.layers:
              layer.trainable = True
          print('Full model training')
  \<close>
  \<open>embed_model\<close> is unbound after a snapshot was loaded: NameError.
\<close>

definition pretrain ::
  "args \<Rightarrow> construction \<Rightarrow> kwargs \<Rightarrow> loss_fn \<Rightarrow> metric_fn \<Rightarrow> unit run" where
  "pretrain a c kw l m =
     (case nonempty (finetune a) of
        None \<Rightarrow> return ()
      | Some weights \<Rightarrow>
        and_then (emit [Print (''Loading pre-trained weights from '' @ weights),
                        Load_weights (the_model c) weights]) (\<lambda>_.
          if finetune_init a > 0 then
            and_then (emit [Print ''Pre-training new layers'',
                            Train_only [''embedding'', ''prob'']]) (\<lambda>_.
              case embed_model c of
                None \<Rightarrow> lift (Inl (NameError ''embed_model''))
              | Some em \<Rightarrow>
                  and_then (lift (py_index (layers em) (- 1))) (\<lambda>_.
                    emit [Train_last_layer_of em,
                          Compile (the_par_model c)
                            (compile_arguments a (embedding_layer_name c) l m None),
                          Fit_generator (the_par_model c)
                            \<lparr> generator = Train_sequence (batch_size a) kw,
                              validation_data = Test_sequence (val_batch_size a) kw,
                              fit_epochs = finetune_init a,
                              fit_initial_epoch = None,
                              callbacks = None,
                              verbose = (\<not> no_progress a),
                              max_queue_size = queue_size a,
                              workers = read_workers a,
                              use_multiprocessing = True \<rparr>,
                          Train_all,
                          Print ''Full model training'']))
          else return ()))"

text \<open>
  \<^verbatim>\<open>
  callbacks, num_epochs = utils.get_lr_schedule(args.lr_schedule, data_generator.num_train, args.batch_size, schedule_args = { ... })
  if args.log_dir:
      if os.path.isdir(args.log_dir):
          shutil.rmtree(args.log_dir, ignore_errors = True)
      callbacks.append(keras.callbacks.TensorBoard(log_dir = args.log_dir, write_graph = False))
  if args.snapshot:
      callbacks.append(keras.callbacks.ModelCheckpoint(args.snapshot) if args.gpus <= 1 else utils.TemplateModelCheckpoint(model, args.snapshot))
  \<close>
\<close>

definition log_dir_callbacks :: "args \<Rightarrow> callback list" where
  "log_dir_callbacks a =
     (case nonempty (log_dir a) of
        None \<Rightarrow> []
      | Some d \<Rightarrow> [TensorBoard d False])"

definition snapshot_callbacks :: "args \<Rightarrow> model \<Rightarrow> callback list" where
  "snapshot_callbacks a m =
     (case nonempty (snapshot a) of
        None \<Rightarrow> []
      | Some p \<Rightarrow> [if gpus a \<le> 1 then ModelCheckpoint p else TemplateModelCheckpoint m p])"

definition schedule ::
  "env \<Rightarrow> args \<Rightarrow> data_generator \<Rightarrow> model \<Rightarrow> (callback list \<times> int) run" where
  "schedule env a dg m =
     and_then (emit [Get_lr_schedule (lr_schedule a) (num_train dg) (batch_size a)]) (\<lambda>_.
       case get_lr_schedule env (lr_schedule a) (num_train dg) (batch_size a) a of
         (cbs, num_epochs) \<Rightarrow>
           and_then (emit (case nonempty (log_dir a) of
                             None \<Rightarrow> []
                           | Some d \<Rightarrow> if path_isdir env d then [Rmtree d] else [])) (\<lambda>_.
             return (cbs @ log_dir_callbacks a @ snapshot_callbacks a m, num_epochs)))"

text \<open>
  \<^verbatim>\<open>args.epochs if args.epochs else num_epochs\<close>: a count of zero is false.
\<close>

definition epochs_or :: "args \<Rightarrow> int \<Rightarrow> int" where
  "epochs_or a num_epochs =
     (case epochs a of
        None \<Rightarrow> num_epochs
      | Some e \<Rightarrow> if e \<noteq> 0 then e else num_epochs)"

text \<open>
  \<^verbatim>\<open>
  if args.max_decay > 0:
      decay = (1.0/args.max_decay - 1) / ((data_generator.num_train // args.batch_size) * (args.epochs if args.epochs else num_epochs))
  else:
      decay = 0.0
  \<close>
  Both \<^verbatim>\<open>//\<close> by zero and \<^verbatim>\<open>/\<close> by zero raise ZeroDivisionError; \<^verbatim>\<open>//\<close>
  rounds down, as \<open>div\<close> on \<^typ>\<open>int\<close> does.
\<close>

definition decay_divisor :: "args \<Rightarrow> data_generator \<Rightarrow> int \<Rightarrow> error + int" where
  "decay_divisor a dg num_epochs =
     (if batch_size a = 0 then Inl ZeroDivisionError
      else Inr ((num_train dg div batch_size a) * epochs_or a num_epochs))"

definition compute_decay :: "args \<Rightarrow> data_generator \<Rightarrow> int \<Rightarrow> error + real" where
  "compute_decay a dg num_epochs =
     (if max_decay a > 0 then
        (case decay_divisor a dg num_epochs of
           Inl e \<Rightarrow> Inl e
         | Inr d \<Rightarrow>
             if d = 0 then Inl ZeroDivisionError
             else Inr ((1 / max_decay a - 1) / real_of_int d))
      else Inr 0)"

text \<open>
  \<^verbatim>\<open>
  [compile]
  par_model.fit_generator(
            data_generator.train_sequence(args.batch_size, batch_transform = transform_inputs, batch_transform_kwargs = batch_transform_kwargs),
            validation_data = data_generator.test_sequence(args.val_batch_size, batch_transform = transform_inputs, batch_transform_kwargs = batch_transform_kwargs),
            epochs = args.epochs if args.epochs else num_epochs, initial_epoch = args.initial_epoch,
            callbacks = callbacks, verbose = not args.no_progress,
            max_queue_size = args.queue_size, workers = args.read_workers, use_multiprocessing = True)
  print(par_model.evaluate_generator(data_generator.test_sequence(args.val_batch_size, ...)))
  if args.cls_weight > 0:
      test_pred = par_model.predict_generator(data_generator.test_sequence(args.val_batch_size, ...))[1].argmax(axis=-1)
      ...
      print('Average Accuracy: {:.4f}'.format(...))
  \<close>
\<close>

definition train ::
  "args \<Rightarrow> construction \<Rightarrow> kwargs \<Rightarrow> loss_fn \<Rightarrow> metric_fn \<Rightarrow> callback list \<Rightarrow> int \<Rightarrow> real
     \<Rightarrow> unit run" where
  "train a c kw l m cbs num_epochs decay =
     emit ([Compile (the_par_model c)
              (compile_arguments a (embedding_layer_name c) l m (Some decay)),
            Fit_generator (the_par_model c)
              \<lparr> generator = Train_sequence (batch_size a) kw,
                validation_data = Test_sequence (val_batch_size a) kw,
                fit_epochs = epochs_or a num_epochs,
                fit_initial_epoch = Some (initial_epoch a),
                callbacks = Some cbs,
                verbose = (\<not> no_progress a),
                max_queue_size = queue_size a,
                workers = read_workers a,
                use_multiprocessing = True \<rparr>,
            Evaluate_generator_and_print (the_par_model c)
              (Test_sequence (val_batch_size a) kw)]
           @ (if cls_weight a > 0 then
                [Predict_generator (the_par_model c)
                   (Test_sequence (val_batch_size a) kw) None,
                 Print_average_accuracy]
              else []))"

text \<open>
  \<^verbatim>\<open>
  if args.weight_dump:
      try:
          model.save_weights(args.weight_dump)
      except Exception as e:
          print('An error occurred while saving the model weights: {}'.format(e))
  if args.model_dump:
      try:
          model.save(args.model_dump)
      except Exception as e:
          print('An error occurred while saving the model: {}'.format(e))
  if args.feature_dump:
      pred_features = par_model.predict_generator(data_generator.flow_test(1, False), data_generator.num_test)
      if args.cls_weight > 0:
          pred_features = pred_features[0]
      with open(args.feature_dump,'wb') as dump_file:
          pickle.dump({ 'feat' : dict(enumerate(pred_features)) }, dump_file)
  \<close>
  A call in \<^verbatim>\<open>try\<close> is an event whether it raises or not; \<^verbatim>\<open>except Exception\<close>
  catches what derives from \<^verbatim>\<open>Exception\<close>, anything else ends the run.
\<close>

definition guarded :: "event \<Rightarrow> raised option \<Rightarrow> string \<Rightarrow> unit run" where
  "guarded call outcome message =
     (case outcome of
        None \<Rightarrow> emit [call]
      | Some (Exception e) \<Rightarrow> emit [call, Print (message @ e)]
      | Some (BaseException n) \<Rightarrow> ([call], Inl (Uncaught n)))"

definition dump_weights :: "env \<Rightarrow> args \<Rightarrow> model \<Rightarrow> unit run" where
  "dump_weights env a m =
     (case nonempty (weight_dump a) of
        None \<Rightarrow> return ()
      | Some p \<Rightarrow>
          guarded (Save_weights m p) (save_weights env m p)
            ''An error occurred while saving the model weights: '')"

definition dump_model :: "env \<Rightarrow> args \<Rightarrow> model \<Rightarrow> unit run" where
  "dump_model env a m =
     (case nonempty (model_dump a) of
        None \<Rightarrow> return ()
      | Some p \<Rightarrow>
          guarded (Save m p) (save env m p) ''An error occurred while saving the model: '')"

definition dump_features :: "args \<Rightarrow> data_generator \<Rightarrow> par_model \<Rightarrow> unit run" where
  "dump_features a dg pm =
     (case nonempty (feature_dump a) of
        None \<Rightarrow> return ()
      | Some p \<Rightarrow>
          emit [Predict_generator pm (Flow_test 1 False) (Some (num_test dg)),
                Pickle_dump_features p (cls_weight a > 0)])"

definition dumps :: "env \<Rightarrow> args \<Rightarrow> data_generator \<Rightarrow> construction \<Rightarrow> unit run" where
  "dumps env a dg c =
     and_then (dump_weights env a (the_model c)) (\<lambda>_.
     and_then (dump_model env a (the_model c)) (\<lambda>_.
       dump_features a dg (the_par_model c)))"

section \<open>The script as a whole\<close>

text \<open>
  Everything after the model was constructed (lines 145 to 245).
\<close>

definition after_construction ::
  "env \<Rightarrow> args \<Rightarrow> pyobj \<Rightarrow> data_generator \<Rightarrow> construction \<Rightarrow> unit run" where
  "after_construction env a emb dg c =
     and_then (emit (if \<not> no_progress a then [Summary (the_model c)] else [])) (\<lambda>_.
       let kw = batch_transform_kwargs emb (num_classes dg) (cls_weight a);
           l = select_loss (loss a);
           m = select_metric emb (loss a)
       in
       and_then (pretrain a c kw l m) (\<lambda>_.
       and_then (schedule env a dg (the_model c)) (\<lambda>(cbs, num_epochs).
       and_then (lift (compute_decay a dg num_epochs)) (\<lambda>decay.
       and_then (train a c kw l m cbs num_epochs decay) (\<lambda>_.
         dumps env a dg c)))))"

text \<open>Everything after the class embeddings were loaded (lines 106 to 245).\<close>

definition after_loading :: "env \<Rightarrow> args \<Rightarrow> pyobj \<Rightarrow> pyobj \<Rightarrow> unit run" where
  "after_loading env a embed_labels emb =
     and_then (emit [Get_data_generator (dataset a) (data_root a) embed_labels]) (\<lambda>_.
       let dg = get_data_generator env (dataset a) (data_root a) embed_labels in
       and_then (construct_model env a emb dg) (\<lambda>c.
         after_construction env a emb dg c))"

text \<open>The run for the parsed arguments (lines 94 to 245).\<close>

definition main :: "env \<Rightarrow> args \<Rightarrow> unit run" where
  "main env args0 =
     (let a = default_val_batch_size args0 in
      and_then (emit [Set_session]) (\<lambda>_.
      and_then (load_class_embeddings env a) (\<lambda>(embed_labels, emb).
        after_loading env a embed_labels emb)))"

section \<open>Reading a run\<close>

text \<open>The batch sources that a call is given.\<close>

fun sequences_of :: "event \<Rightarrow> sequence list" where
  "sequences_of (Fit_generator pm fa) = [generator fa, validation_data fa]"
| "sequences_of (Evaluate_generator_and_print pm s) = [s]"
| "sequences_of (Predict_generator pm s n) = [s]"
| "sequences_of e = []"

text \<open>The batch sizes that the \<^verbatim>\<open>test_sequence\<close> calls of an event are given.\<close>

fun test_batch_size :: "sequence \<Rightarrow> int option list" where
  "test_batch_size (Test_sequence b kw) = [b]"
| "test_batch_size s = []"

definition test_batch_sizes :: "event \<Rightarrow> int option list" where
  "test_batch_sizes e = concat (map test_batch_size (sequences_of e))"

text \<open>The events that load or build the base model.\<close>

fun is_construction :: "event \<Rightarrow> bool" where
  "is_construction (Load_model d p) = True"
| "is_construction (Build_network d k arch) = True"
| "is_construction e = False"

text \<open>The \<open>callbacks\<close> argument of a \<^verbatim>\<open>fit_generator\<close> call.\<close>

fun fit_callbacks :: "event \<Rightarrow> callback list option list" where
  "fit_callbacks (Fit_generator pm fa) = [callbacks fa]"
| "fit_callbacks e = []"

section \<open>Example values\<close>

text \<open>
  A network as \<^verbatim>\<open>utils.build_network\<close> may return it: three layers in a chain, the
  last one named \<open>embedding\<close>.
\<close>

definition ex_network :: model where
  "ex_network =
     \<lparr> inputs = [Network_tensor ''input_1''],
       layers =
         [\<lparr> name = Some ''conv1'', kind = Network_layer, layer_output = Network_tensor ''conv1'' \<rparr>,
          \<lparr> name = Some ''pool'', kind = Network_layer, layer_output = Network_tensor ''pool'' \<rparr>,
          \<lparr> name = Some ''embedding'', kind = Network_layer,
             layer_output = Network_tensor ''embedding'' \<rparr>],
       outputs = [Network_tensor ''embedding''] \<rparr>"

text \<open>A pickle file as \<^verbatim>\<open>compute_class_embeddings.py\<close> writes it, for three classes.\<close>

definition ex_matrix :: pyobj where
  "ex_matrix = Ndarray [3, 2] [[1, 0], [0, 1], [1, 1]]"

definition ex_pickle :: pyobj where
  "ex_pickle =
     Pydict [(''ind2label'', Pylist [''cat'', ''dog'', ''bird'']), (''embedding'', ex_matrix)]"

definition ex_dg :: data_generator where
  "ex_dg = \<lparr> num_classes = 3, num_train = 100, num_test = 20 \<rparr>"

text \<open>
  Surroundings in which the file \<open>emb.pickle\<close> holds the example pickle, the snapshot
  \<open>snap.h5\<close> exists, the schedule has five epochs, and saving the weights fails.
\<close>

definition ex_env :: env where
  "ex_env =
     \<lparr> builtin_int = int_of_str,
       pickle_load = (\<lambda>p. if p = ''emb.pickle'' then Some ex_pickle else None),
       path_exists = (\<lambda>p. p = ''snap.h5''),
       path_isdir = (\<lambda>p. False),
       get_data_generator = (\<lambda>ds root classes. ex_dg),
       build_network = (\<lambda>dim arch. ex_network),
       load_model = (\<lambda>p. ex_network),
       get_lr_schedule = (\<lambda>s n b a. ([Schedule_callback ''SGDR''], 5)),
       save_weights = (\<lambda>m p. Some (Exception ''disk full'')),
       save = (\<lambda>m p. None) \<rparr>"

text \<open>The defaults of the argument parser, with the three required arguments.\<close>

definition ex_args :: args where
  "ex_args =
     \<lparr> dataset = ''CIFAR-10'', data_root = ''/data'', embedding = ''emb.pickle'',
       architecture = ''simple'', loss = ''inv_corr'', cls_weight = 0, cls_base = None,
       lr_schedule = ''SGDR'', clipgrad = 10, max_decay = 0, nesterov = False,
       epochs = None, batch_size = 100, val_batch_size = None, snapshot = None,
       initial_epoch = 0, finetune = None, finetune_init = 8, gpus = 1, read_workers = 8,
       queue_size = 100, gpu_merge = False, model_dump = None, weight_dump = None,
       feature_dump = None, log_dir = None, no_progress = False, sgd_lr = 1 / 10 \<rparr>"

text \<open>The construction of a run that resumed from the snapshot on one GPU.\<close>

definition ex_construction :: construction where
  "ex_construction =
     \<lparr> the_model = ex_network, the_par_model = Base ex_network,
       embedding_layer_name = ''embedding'', embed_model = None, built_on = Default_device \<rparr>"



section \<open>Properties of transform\_inputs\<close>

lemma take_rows_Inr:
  "take_rows rs y = Inr vs \<Longrightarrow>
     length vs = length y \<and> (\<forall>i < length y. py_index rs (y ! i) = Inr (vs ! i))"
proof (induction y arbitrary: vs)
  case Nil
  then show ?case by simp
next
  case (Cons c cs)
  from Cons.prems obtain r out where
    r: "py_index rs c = Inr r" and out: "take_rows rs cs = Inr out" and vs: "vs = r # out"
    by (auto split: sum.splits)
  from Cons.IH [OF out] have len: "length out = length cs"
    and nth: "\<forall>i < length cs. py_index rs (cs ! i) = Inr (out ! i)" by simp_all
  show ?case
  proof (intro conjI allI impI)
    show "length vs = length (c # cs)" using len vs by simp
  next
    fix i assume "i < length (c # cs)"
    then show "py_index rs ((c # cs) ! i) = Inr (vs ! i)"
      using r nth vs by (cases i) simp_all
  qed
qed

lemma take_rows_classes:
  "(\<forall>c \<in> set y. 0 \<le> c \<and> c < int (length rs)) \<Longrightarrow>
     take_rows rs y = Inr (map (\<lambda>c. rs ! nat c) y)"
  by (induction y) (simp_all add: py_index_def)

lemma transform_inputs_None_Inr:
  "transform_inputs tc X y emb None = Inr r \<Longrightarrow>
     \<exists>vs. getitem emb y = Inr vs \<and> r = (X, Embedded vs)"
  by (auto simp: transform_inputs_def split: sum.splits)

lemma transform_inputs_Some_Inr:
  "transform_inputs tc X y emb (Some n) = Inr r \<Longrightarrow>
     \<exists>vs onehot. getitem emb y = Inr vs \<and> tc y n = Inr onehot
        \<and> r = (X, Embedded_and_categorical vs onehot)"
  by (auto simp: transform_inputs_def split: sum.splits)

lemma transform_inputs_rows:
  assumes "transform_inputs tc X y (Ndarray sh rs) nc = Inr (X', t)"
  shows "X' = X \<and> length (embedded_part t) = length y
           \<and> (\<forall>i < length y. py_index rs (y ! i) = Inr (embedded_part t ! i))"
proof (cases nc)
  case None
  with assms obtain vs where "take_rows rs y = Inr vs" "X' = X" "t = Embedded vs"
    by (auto simp: getitem_def dest: transform_inputs_None_Inr)
  then show ?thesis using take_rows_Inr [of rs y vs] by simp
next
  case (Some n)
  with assms obtain vs onehot where
    "take_rows rs y = Inr vs" "X' = X" "t = Embedded_and_categorical vs onehot"
    by (auto simp: getitem_def dest: transform_inputs_Some_Inr)
  then show ?thesis using take_rows_Inr [of rs y vs] by simp
qed

text \<open>
  C1. For a batch \<open>(X, y)\<close> and the loaded embedding matrix, the target of every image
  is its class vector \<open>embedding[y]\<close>:
  \<^item> without \<open>num_classes\<close> a returned value is \<open>(X, embedding[y])\<close>, with it
    \<open>(X, [embedding[y], to_categorical(y, num_classes)])\<close>;
  \<^item> whenever a value is returned for a matrix, the images are unchanged and entry \<open>i\<close>
    of the vector part is row \<open>y[i]\<close> of the matrix (Python indexing);
  \<^item> for labels that are class indices \<open>0 \<le> c < number of rows\<close> the call does return:
    the vector part is the list of rows \<open>rs ! c\<close>, and \<open>to_categorical\<close> decides
    the rest;
  \<^item> the keyword arguments that the script hands to the data generator carry the loaded
    embedding, and \<open>num_classes\<close> exactly when \<open>cls_weight > 0\<close>.
\<close>

theorem transform_inputs_targets:
  "(transform_inputs tc X y emb None = Inr r \<longrightarrow>
      (\<exists>vs. getitem emb y = Inr vs \<and> r = (X, Embedded vs)))
   \<and> (transform_inputs tc X y emb (Some n) = Inr r \<longrightarrow>
      (\<exists>vs onehot. getitem emb y = Inr vs \<and> tc y n = Inr onehot
          \<and> r = (X, Embedded_and_categorical vs onehot)))
   \<and> (transform_inputs tc X y (Ndarray sh rs) nc = Inr (X', t) \<longrightarrow>
      X' = X \<and> length (embedded_part t) = length y
        \<and> (\<forall>i < length y. py_index rs (y ! i) = Inr (embedded_part t ! i)))
   \<and> ((\<forall>c \<in> set y. 0 \<le> c \<and> c < int (length rs)) \<longrightarrow>
      transform_inputs tc X y (Ndarray sh rs) None = Inr (X, Embedded (map (\<lambda>c. rs ! nat c) y))
      \<and> (\<forall>onehot. tc y n = Inr onehot \<longrightarrow>
           transform_inputs tc X y (Ndarray sh rs) (Some n)
             = Inr (X, Embedded_and_categorical (map (\<lambda>c. rs ! nat c) y) onehot)))
   \<and> call_batch_transform tc (batch_transform_kwargs emb k w) X y
        = transform_inputs tc X y emb (if w > 0 then Some k else None)"
proof (intro conjI impI)
  assume "transform_inputs tc X y emb None = Inr r"
  then show "\<exists>vs. getitem emb y = Inr vs \<and> r = (X, Embedded vs)"
    by (rule transform_inputs_None_Inr)
next
  assume "transform_inputs tc X y emb (Some n) = Inr r"
  then show "\<exists>vs onehot. getitem emb y = Inr vs \<and> tc y n = Inr onehot
          \<and> r = (X, Embedded_and_categorical vs onehot)"
    by (rule transform_inputs_Some_Inr)
next
  assume a: "transform_inputs tc X y (Ndarray sh rs) nc = Inr (X', t)"
  show "X' = X" using transform_inputs_rows [OF a] by simp
  show "length (embedded_part t) = length y" using transform_inputs_rows [OF a] by simp
  show "\<forall>i < length y. py_index rs (y ! i) = Inr (embedded_part t ! i)"
    using transform_inputs_rows [OF a] by simp
next
  assume c: "\<forall>c \<in> set y. 0 \<le> c \<and> c < int (length rs)"
  show "transform_inputs tc X y (Ndarray sh rs) None
          = Inr (X, Embedded (map (\<lambda>c. rs ! nat c) y))"
    by (simp add: transform_inputs_def getitem_def take_rows_classes [OF c])
  show "\<forall>onehot. tc y n = Inr onehot \<longrightarrow>
           transform_inputs tc X y (Ndarray sh rs) (Some n)
             = Inr (X, Embedded_and_categorical (map (\<lambda>c. rs ! nat c) y) onehot)"
    by (simp add: transform_inputs_def getitem_def take_rows_classes [OF c])
next
  show "call_batch_transform tc (batch_transform_kwargs emb k w) X y
        = transform_inputs tc X y emb (if w > 0 then Some k else None)"
    by (simp add: call_batch_transform_def batch_transform_kwargs_def)
qed

theorem transform_inputs_targets_witness:
  "transform_inputs to_categorical ''images'' [2, 0] (Ndarray [3, 2] [[1, 0], [0, 1], [1, 1]]) None
     = Inr (''images'', Embedded [[1, 1], [1, 0]])
   \<and> transform_inputs to_categorical ''images'' [2, 0] (Ndarray [3, 2] [[1, 0], [0, 1], [1, 1]]) (Some 3)
     = Inr (''images'', Embedded_and_categorical [[1, 1], [1, 0]] [[0, 0, 1], [1, 0, 0]])"
proof -
  have labels: "\<forall>c \<in> set [2, 0 :: int]. 0 \<le> c \<and> c < int (length [[1, 0], [0, 1], [1, 1 :: real]])"
    by simp
  have onehot: "to_categorical [2, 0] 3 = Inr [[0, 0, 1], [1, 0, 0]]"
    by (simp add: to_categorical_def upt_rec)
  from transform_inputs_targets
    [of to_categorical "''images''" "[2, 0]" "Ndarray [3, 2] [[1, 0], [0, 1], [1, 1]]"
        "(''images'', Embedded [[1, 1], [1, 0]])" 3 "[3, 2]" "[[1, 0], [0, 1], [1, 1]]"]
    labels onehot
  show ?thesis by simp
qed

section \<open>Properties of the loss and metric selection\<close>

lemma endswith_corr_choices:
  "endswith ''mse'' ''_corr'' = False"
  "endswith ''inv_corr'' ''_corr'' = True"
  "endswith ''unnorm_corr'' ''_corr'' = True"
  "endswith ''softmax_corr'' ''_corr'' = True"
  by (simp_all add: endswith_def)

lemma select_mse:
  "select_loss ''mse'' = Squared_distance"
  "select_metric emb ''mse'' = Nn_accuracy emb False"
  by (simp_all add: select_loss_def select_metric_def endswith_corr_choices)

lemma select_inv_corr:
  "select_loss ''inv_corr'' = Inv_correlation"
  "select_metric emb ''inv_corr'' = Nn_accuracy emb True"
  by (simp_all add: select_loss_def select_metric_def endswith_corr_choices)

lemma select_unnorm_corr:
  "select_loss ''unnorm_corr'' = Inv_correlation"
  "select_metric emb ''unnorm_corr'' = Nn_accuracy emb True"
  by (simp_all add: select_loss_def select_metric_def endswith_corr_choices)

lemma select_softmax_corr:
  "select_loss ''softmax_corr'' = Inv_correlation"
  "select_metric emb ''softmax_corr'' = Accuracy"
  by (simp_all add: select_loss_def select_metric_def endswith_corr_choices)

text \<open>
  C2. For every string given as \<open>--loss\<close>: the loss is \<open>utils.inv_correlation\<close> when
  the name ends with \<open>_corr\<close> and \<open>utils.squared_distance\<close> otherwise; the metric is
  \<open>'accuracy'\<close> exactly for \<open>softmax_corr\<close>, \<open>utils.nn_accuracy\<close> with
  \<open>dot_prod_sim = True\<close> for the other names that end with \<open>_corr\<close>, and
  \<open>utils.nn_accuracy\<close> with \<open>dot_prod_sim = False\<close> otherwise. Among the four
  names that argparse accepts, the one that does not end with \<open>_corr\<close> is \<open>mse\<close>.
\<close>

theorem loss_and_metric_selection:
  "(endswith l ''_corr'' \<longrightarrow> select_loss l = Inv_correlation)
   \<and> (\<not> endswith l ''_corr'' \<longrightarrow> select_loss l = Squared_distance)
   \<and> (select_metric emb l = Accuracy \<longleftrightarrow> l = ''softmax_corr'')
   \<and> (endswith l ''_corr'' \<and> l \<noteq> ''softmax_corr'' \<longrightarrow> select_metric emb l = Nn_accuracy emb True)
   \<and> (\<not> endswith l ''_corr'' \<longrightarrow> select_metric emb l = Nn_accuracy emb False)
   \<and> (l \<in> set loss_choices \<longrightarrow> (\<not> endswith l ''_corr'' \<longleftrightarrow> l = ''mse''))
   \<and> (l \<in> set loss_choices \<longrightarrow>
        (select_loss l = Squared_distance \<longleftrightarrow> l = ''mse'')
        \<and> (select_metric emb l = Nn_accuracy emb False \<longleftrightarrow> l = ''mse'')
        \<and> (select_metric emb l = Nn_accuracy emb True
             \<longleftrightarrow> l = ''inv_corr'' \<or> l = ''unnorm_corr''))"
proof -
  have sm: "endswith ''softmax_corr'' ''_corr''" by (simp add: endswith_corr_choices)
  have 1: "endswith l ''_corr'' \<longrightarrow> select_loss l = Inv_correlation"
    by (simp add: select_loss_def)
  have 2: "\<not> endswith l ''_corr'' \<longrightarrow> select_loss l = Squared_distance"
    by (simp add: select_loss_def)
  have 3: "select_metric emb l = Accuracy \<longleftrightarrow> l = ''softmax_corr''"
    using sm by (auto simp: select_metric_def)
  have 4: "endswith l ''_corr'' \<and> l \<noteq> ''softmax_corr''
             \<longrightarrow> select_metric emb l = Nn_accuracy emb True"
    by (simp add: select_metric_def)
  have 5: "\<not> endswith l ''_corr'' \<longrightarrow> select_metric emb l = Nn_accuracy emb False"
    by (simp add: select_metric_def)
  have cases: "l \<in> set loss_choices \<Longrightarrow>
      l = ''mse'' \<or> l = ''inv_corr'' \<or> l = ''unnorm_corr'' \<or> l = ''softmax_corr''"
    by (simp add: loss_choices_def)
  have 6: "l \<in> set loss_choices \<longrightarrow> (\<not> endswith l ''_corr'' \<longleftrightarrow> l = ''mse'')"
  proof
    assume "l \<in> set loss_choices"
    from cases [OF this] show "\<not> endswith l ''_corr'' \<longleftrightarrow> l = ''mse''"
      by (elim disjE) (simp_all add: endswith_corr_choices)
  qed
  have 7: "l \<in> set loss_choices \<longrightarrow>
        (select_loss l = Squared_distance \<longleftrightarrow> l = ''mse'')
        \<and> (select_metric emb l = Nn_accuracy emb False \<longleftrightarrow> l = ''mse'')
        \<and> (select_metric emb l = Nn_accuracy emb True
             \<longleftrightarrow> l = ''inv_corr'' \<or> l = ''unnorm_corr'')"
  proof
    assume "l \<in> set loss_choices"
    from cases [OF this] show
       "(select_loss l = Squared_distance \<longleftrightarrow> l = ''mse'')
        \<and> (select_metric emb l = Nn_accuracy emb False \<longleftrightarrow> l = ''mse'')
        \<and> (select_metric emb l = Nn_accuracy emb True
             \<longleftrightarrow> l = ''inv_corr'' \<or> l = ''unnorm_corr'')"
      by (elim disjE)
         (simp_all add: select_mse select_inv_corr select_unnorm_corr select_softmax_corr)
  qed
  from 1 2 3 4 5 6 7 show ?thesis by blast
qed

theorem loss_and_metric_selection_witness:
  "select_loss ''mse'' = Squared_distance
   \<and> select_metric (Ndarray [2, 1] [[1], [0]]) ''mse'' = Nn_accuracy (Ndarray [2, 1] [[1], [0]]) False
   \<and> select_loss ''inv_corr'' = Inv_correlation
   \<and> select_metric (Ndarray [2, 1] [[1], [0]]) ''inv_corr'' = Nn_accuracy (Ndarray [2, 1] [[1], [0]]) True
   \<and> select_loss ''unnorm_corr'' = Inv_correlation
   \<and> select_metric (Ndarray [2, 1] [[1], [0]]) ''unnorm_corr'' = Nn_accuracy (Ndarray [2, 1] [[1], [0]]) True
   \<and> select_loss ''softmax_corr'' = Inv_correlation
   \<and> select_metric (Ndarray [2, 1] [[1], [0]]) ''softmax_corr'' = Accuracy"
  using loss_and_metric_selection [of "''mse''" "Ndarray [2, 1] [[1], [0]]"]
    loss_and_metric_selection [of "''inv_corr''" "Ndarray [2, 1] [[1], [0]]"]
    loss_and_metric_selection [of "''unnorm_corr''" "Ndarray [2, 1] [[1], [0]]"]
    loss_and_metric_selection [of "''softmax_corr''" "Ndarray [2, 1] [[1], [0]]"]
  by (simp add: endswith_corr_choices loss_choices_def select_mse select_inv_corr
        select_unnorm_corr select_softmax_corr)

section \<open>Parts of a run in sequence\<close>

lemma fst_return [simp]: "fst (return x) = []"
  and snd_return [simp]: "snd (return x) = Inr x"
  by (simp_all add: return_def)

lemma fst_emit [simp]: "fst (emit es) = es"
  and snd_emit [simp]: "snd (emit es) = Inr ()"
  by (simp_all add: emit_def)

lemma fst_lift [simp]: "fst (lift r) = []"
  and snd_lift [simp]: "snd (lift r) = r"
  by (simp_all add: lift_def)

lemma fst_and_then:
  "fst (and_then m f) = fst m @ (case snd m of Inl e \<Rightarrow> [] | Inr x \<Rightarrow> fst (f x))"
  by (cases m) (auto simp: and_then_def split: sum.splits prod.splits)

lemma snd_and_then:
  "snd (and_then m f) = (case snd m of Inl e \<Rightarrow> Inl e | Inr x \<Rightarrow> snd (f x))"
  by (cases m) (auto simp: and_then_def split: sum.splits prod.splits)

section \<open>Properties of the model construction\<close>

lemma build_model_resumed:
  "resume_from env a = Some p \<Longrightarrow>
     build_model env a emb dg dev =
       ([Print (''Resuming from snapshot '' @ p), Load_model dev p],
        Inr (load_model env p, ''embedding'', None))"
  by (simp add: build_model_def prod_eq_iff fst_and_then snd_and_then)

lemma build_model_built:
  "resume_from env a = None \<Longrightarrow>
     build_model env a emb dg dev =
       (case shape_1 emb of
          Inl e \<Rightarrow> ([], Inl e)
        | Inr k \<Rightarrow>
            ([Build_network dev k (architecture a)],
             (case normalized_model (build_network env k (architecture a)) (loss a) of
                Inl e \<Rightarrow> Inl e
              | Inr (m, n) \<Rightarrow>
                  if cls_weight a > 0 then
                    (case cls_model (builtin_int env) m (num_classes dg) (cls_base a) of
                       Inl e \<Rightarrow> Inl e
                     | Inr m' \<Rightarrow> Inr (m', n, Some (build_network env k (architecture a))))
                  else Inr (m, n, Some (build_network env k (architecture a))))))"
  by (auto simp: build_model_def prod_eq_iff fst_and_then snd_and_then Let_def
           split: sum.splits prod.splits)


lemma construct_model_unfold:
  "construct_model env a emb dg =
     (let dev = (if gpus a \<le> 1 \<or> gpu_merge a then Default_device else Cpu0) in
      case build_model env a emb dg dev of
        (es, Inl e) \<Rightarrow> (es, Inl e)
      | (es, Inr (m, n, em)) \<Rightarrow>
          (es, Inr \<lparr> the_model = m,
                     the_par_model =
                       (if gpus a \<le> 1 then Base m
                        else Multi_gpu_model m (gpus a) (if gpu_merge a then Some False else None)),
                     embedding_layer_name = n, embed_model = em, built_on = dev \<rparr>))"
  by (auto simp: construct_model_def and_then_def return_def Let_def split: prod.splits sum.splits)


lemma resume_from_Some:
  "resume_from env a = Some p \<longleftrightarrow> snapshot a = Some p \<and> p \<noteq> [] \<and> path_exists env p"
  by (auto simp: resume_from_def nonempty_def split: option.splits if_splits)

section \<open>Where the calls of a run come from\<close>

lemma guarded_simps:
  "guarded call None msg = ([call], Inr ())"
  "guarded call (Some (Exception e)) msg = ([call, Print (msg @ e)], Inr ())"
  "guarded call (Some (BaseException n)) msg = ([call], Inl (Uncaught n))"
  by (simp_all add: guarded_def emit_def)

lemma guarded_events:
  "e \<in> set (fst (guarded call outcome msg)) \<Longrightarrow> e = call \<or> (\<exists>s. e = Print s)"
  by (cases outcome; cases "the outcome") (auto simp: guarded_simps)

lemma dumps_events:
  assumes "e \<in> set (fst (dumps env a dg c))"
  shows "(\<exists>p. e = Save_weights (the_model c) p) \<or> (\<exists>p. e = Save (the_model c) p)
     \<or> (\<exists>s. e = Print s)
     \<or> e = Predict_generator (the_par_model c) (Flow_test 1 False) (Some (num_test dg))
     \<or> (\<exists>p w. e = Pickle_dump_features p w)"
  using assms
  by (auto simp: dumps_def fst_and_then dump_weights_def dump_model_def dump_features_def
       split: option.splits sum.splits dest!: guarded_events)

lemma schedule_events:
  "e \<in> set (fst (schedule env a dg mo)) \<Longrightarrow>
     e = Get_lr_schedule (lr_schedule a) (num_train dg) (batch_size a) \<or> (\<exists>d. e = Rmtree d)"
  by (auto simp: schedule_def fst_and_then split: option.splits prod.splits if_splits)

lemma construct_model_events:
  assumes "e \<in> set (fst (construct_model env a emb dg))"
  shows "(\<exists>s. e = Print s) \<or> is_construction e"
proof -
  let ?dev = "if gpus a \<le> 1 \<or> gpu_merge a then Default_device else Cpu0"
  from assms have "e \<in> set (fst (build_model env a emb dg ?dev))"
    by (auto simp: construct_model_unfold Let_def split: prod.splits sum.splits)
  then show ?thesis
    by (cases "resume_from env a")
       (auto simp: build_model_built build_model_resumed split: sum.splits)
qed

lemma after_construction_events:
  assumes "e \<in> set (fst (after_construction env a emb dg c))"
  shows "e = Summary (the_model c)
     \<or> e \<in> set (fst (pretrain a c (batch_transform_kwargs emb (num_classes dg) (cls_weight a))
                        (select_loss (loss a)) (select_metric emb (loss a))))
     \<or> e \<in> set (fst (schedule env a dg (the_model c)))
     \<or> (\<exists>cbs ne decay.
           snd (schedule env a dg (the_model c)) = Inr (cbs, ne)
           \<and> compute_decay a dg ne = Inr decay
           \<and> e \<in> set (fst (train a c (batch_transform_kwargs emb (num_classes dg) (cls_weight a))
                             (select_loss (loss a)) (select_metric emb (loss a)) cbs ne decay)))
     \<or> e \<in> set (fst (dumps env a dg c))"
  using assms
  by (auto simp: after_construction_def fst_and_then snd_and_then Let_def
           split: sum.splits prod.splits if_splits) metis+

lemma after_loading_events:
  assumes "e \<in> set (fst (after_loading env a embed_labels emb))"
  shows "e = Get_data_generator (dataset a) (data_root a) embed_labels
     \<or> e \<in> set (fst (construct_model env a emb
                        (get_data_generator env (dataset a) (data_root a) embed_labels)))
     \<or> (\<exists>c. snd (construct_model env a emb
                    (get_data_generator env (dataset a) (data_root a) embed_labels)) = Inr c
            \<and> e \<in> set (fst (after_construction env a emb
                        (get_data_generator env (dataset a) (data_root a) embed_labels) c)))"
  using assms
  by (auto simp: after_loading_def fst_and_then snd_and_then Let_def
           split: sum.splits prod.splits if_splits)

lemma main_events:
  assumes "e \<in> set (fst (main env a0))"
  shows "e = Set_session
     \<or> e = Open_and_unpickle (embedding a0)
     \<or> (\<exists>embed_labels emb.
           snd (load_class_embeddings env (default_val_batch_size a0)) = Inr (embed_labels, emb)
           \<and> e \<in> set (fst (after_loading env (default_val_batch_size a0) embed_labels emb)))"
  using assms
  by (auto simp: main_def load_class_embeddings_def default_val_batch_size_def
        fst_and_then snd_and_then Let_def
      split: sum.splits prod.splits if_splits option.splits)

section \<open>The example values, evaluated\<close>

lemma int_of_str_examples:
  "int_of_str ''1'' = Some 1"
  "int_of_str ''-1'' = Some (- 1)"
  "int_of_str ''pool'' = None"
  "int_of_str ''7'' = Some 7"
  "int_of_str ''fc'' = None"
  by code_simp+

lemma ex_network_simps:
  "outputs ex_network = [Network_tensor ''embedding'']"
  "layers ex_network =
     [\<lparr> name = Some ''conv1'', kind = Network_layer, layer_output = Network_tensor ''conv1'' \<rparr>,
      \<lparr> name = Some ''pool'', kind = Network_layer, layer_output = Network_tensor ''pool'' \<rparr>,
      \<lparr> name = Some ''embedding'', kind = Network_layer,
         layer_output = Network_tensor ''embedding'' \<rparr>]"
  "inputs ex_network = [Network_tensor ''input_1'']"
  by (simp_all add: ex_network_def)



lemma ex_args_simps:
  "dataset ex_args = ''CIFAR-10''" "data_root ex_args = ''/data''"
  "embedding ex_args = ''emb.pickle''" "architecture ex_args = ''simple''"
  "loss ex_args = ''inv_corr''" "cls_weight ex_args = 0" "cls_base ex_args = None"
  "lr_schedule ex_args = ''SGDR''" "clipgrad ex_args = 10" "max_decay ex_args = 0"
  "nesterov ex_args = False" "epochs ex_args = None" "batch_size ex_args = 100"
  "val_batch_size ex_args = None" "snapshot ex_args = None" "initial_epoch ex_args = 0"
  "finetune ex_args = None" "finetune_init ex_args = 8" "gpus ex_args = 1"
  "read_workers ex_args = 8" "queue_size ex_args = 100" "gpu_merge ex_args = False"
  "model_dump ex_args = None" "weight_dump ex_args = None" "feature_dump ex_args = None"
  "log_dir ex_args = None" "no_progress ex_args = False" "sgd_lr ex_args = 1 / 10"
  by (simp_all add: ex_args_def)

section \<open>The model that is fitted\<close>





section \<open>Saving the model\<close>

lemma guarded_continues:
  "(\<forall>n. outcome \<noteq> Some (BaseException n)) \<Longrightarrow> snd (guarded call outcome msg) = Inr ()"
  by (cases outcome; cases "the outcome") (auto simp: guarded_simps)

lemma dump_weights_continues:
  "(\<forall>p n. nonempty (weight_dump a) = Some p \<longrightarrow> save_weights env m p \<noteq> Some (BaseException n))
     \<Longrightarrow> snd (dump_weights env a m) = Inr ()"
  by (cases "nonempty (weight_dump a)") (simp_all add: dump_weights_def guarded_continues)

lemma dump_model_continues:
  "(\<forall>q n. nonempty (model_dump a) = Some q \<longrightarrow> save env m q \<noteq> Some (BaseException n))
     \<Longrightarrow> snd (dump_model env a m) = Inr ()"
  by (cases "nonempty (model_dump a)") (simp_all add: dump_model_def guarded_continues)

lemma dump_features_returns: "snd (dump_features a dg pm) = Inr ()"
  by (simp add: dump_features_def split: option.splits)

lemma dump_model_attempts:
  "nonempty (model_dump a) = Some q \<Longrightarrow> Save m q \<in> set (fst (dump_model env a m))"
  by (cases "save env m q"; cases "the (save env m q)") (auto simp: dump_model_def guarded_simps)

text \<open>
  C7. When \<open>--weight_dump\<close> is set and \<open>model.save_weights\<close> raises an
  \<open>Exception\<close>, the part returns normally after the call and one printed message that
  ends with the exception's text; likewise for \<open>--model_dump\<close> and \<open>model.save\<close>.
  When neither save call raises something that is not an \<open>Exception\<close>, the three dumps
  run one after the other and return normally: the calls of the run are those of the
  weight dump, then those of the model dump, then those of the feature dump, so
  \<open>model.save\<close> is called whenever \<open>--model_dump\<close> is set, and the test features are
  predicted and pickled whenever \<open>--feature_dump\<close> is set.
\<close>

theorem dumps_continue:
  "(nonempty (weight_dump a) = Some p \<and> save_weights env m p = Some (Exception msg) \<longrightarrow>
      dump_weights env a m =
        ([Save_weights m p, Print (''An error occurred while saving the model weights: '' @ msg)],
         Inr ()))
   \<and> (nonempty (model_dump a) = Some q \<and> save env m q = Some (Exception msg) \<longrightarrow>
      dump_model env a m =
        ([Save m q, Print (''An error occurred while saving the model: '' @ msg)], Inr ()))
   \<and> ((\<forall>p n. nonempty (weight_dump a) = Some p \<longrightarrow>
              save_weights env (the_model c) p \<noteq> Some (BaseException n))
       \<and> (\<forall>q n. nonempty (model_dump a) = Some q \<longrightarrow>
              save env (the_model c) q \<noteq> Some (BaseException n)) \<longrightarrow>
      dumps env a dg c =
        (fst (dump_weights env a (the_model c)) @ fst (dump_model env a (the_model c))
           @ fst (dump_features a dg (the_par_model c)), Inr ())
      \<and> (\<forall>q. nonempty (model_dump a) = Some q \<longrightarrow>
            Save (the_model c) q \<in> set (fst (dumps env a dg c)))
      \<and> (\<forall>f. nonempty (feature_dump a) = Some f \<longrightarrow>
            fst (dump_features a dg (the_par_model c)) =
              [Predict_generator (the_par_model c) (Flow_test 1 False) (Some (num_test dg)),
               Pickle_dump_features f (cls_weight a > 0)]))"
proof (intro conjI impI)
  assume "nonempty (weight_dump a) = Some p \<and> save_weights env m p = Some (Exception msg)"
  then show "dump_weights env a m =
        ([Save_weights m p, Print (''An error occurred while saving the model weights: '' @ msg)],
         Inr ())"
    by (simp add: dump_weights_def guarded_simps)
next
  assume "nonempty (model_dump a) = Some q \<and> save env m q = Some (Exception msg)"
  then show "dump_model env a m =
        ([Save m q, Print (''An error occurred while saving the model: '' @ msg)], Inr ())"
    by (simp add: dump_model_def guarded_simps)
next
  assume h: "(\<forall>p n. nonempty (weight_dump a) = Some p \<longrightarrow>
              save_weights env (the_model c) p \<noteq> Some (BaseException n))
       \<and> (\<forall>q n. nonempty (model_dump a) = Some q \<longrightarrow>
              save env (the_model c) q \<noteq> Some (BaseException n))"
  then have w: "snd (dump_weights env a (the_model c)) = Inr ()"
    and d: "snd (dump_model env a (the_model c)) = Inr ()"
    by (simp_all add: dump_weights_continues dump_model_continues)
  show all: "dumps env a dg c =
        (fst (dump_weights env a (the_model c)) @ fst (dump_model env a (the_model c))
           @ fst (dump_features a dg (the_par_model c)), Inr ())"
    by (simp add: dumps_def prod_eq_iff fst_and_then snd_and_then w d dump_features_returns)
  show "\<forall>q. nonempty (model_dump a) = Some q \<longrightarrow>
            Save (the_model c) q \<in> set (fst (dumps env a dg c))"
    by (simp add: all dump_model_attempts)
  show "\<forall>f. nonempty (feature_dump a) = Some f \<longrightarrow>
            fst (dump_features a dg (the_par_model c)) =
              [Predict_generator (the_par_model c) (Flow_test 1 False) (Some (num_test dg)),
               Pickle_dump_features f (cls_weight a > 0)]"
    by (simp add: dump_features_def)
qed

theorem dumps_continue_witness:
  "save_weights ex_env ex_network ''w.h5'' = Some (Exception ''disk full'')
   \<and> dumps ex_env
        (ex_args\<lparr> weight_dump := Some ''w.h5'', model_dump := Some ''m.h5'',
                  feature_dump := Some ''f.pickle'' \<rparr>) ex_dg ex_construction
      = ([Save_weights ex_network ''w.h5'',
          Print ''An error occurred while saving the model weights: disk full'',
          Save ex_network ''m.h5'',
          Predict_generator (Base ex_network) (Flow_test 1 False) (Some 20),
          Pickle_dump_features ''f.pickle'' False],
         Inr ())"
proof -
  let ?a = "ex_args\<lparr> weight_dump := Some ''w.h5'', model_dump := Some ''m.h5'',
                  feature_dump := Some ''f.pickle'' \<rparr>"
  note T = dumps_continue [of ?a "''w.h5''" ex_env ex_network "''disk full''" "''m.h5''"
      ex_construction ex_dg]
  have s: "save_weights ex_env ex_network ''w.h5'' = Some (Exception ''disk full'')"
    "save ex_env ex_network ''m.h5'' = None"
    by (simp_all add: ex_env_def)
  have c: "the_model ex_construction = ex_network" "the_par_model ex_construction = Base ex_network"
    by (simp_all add: ex_construction_def)
  from T have w: "dump_weights ex_env ?a ex_network =
        ([Save_weights ex_network ''w.h5'',
          Print ''An error occurred while saving the model weights: disk full''], Inr ())"
    by (simp add: s nonempty_def)
  have m: "fst (dump_model ex_env ?a ex_network) = [Save ex_network ''m.h5'']"
    by (simp add: dump_model_def nonempty_def s guarded_simps)
  have f: "fst (dump_features ?a ex_dg (Base ex_network)) =
        [Predict_generator (Base ex_network) (Flow_test 1 False) (Some 20),
         Pickle_dump_features ''f.pickle'' False]"
    by (simp add: dump_features_def nonempty_def ex_dg_def ex_args_simps)
  from T have "dumps ex_env ?a ex_dg ex_construction =
        (fst (dump_weights ex_env ?a ex_network) @ fst (dump_model ex_env ?a ex_network)
           @ fst (dump_features ?a ex_dg (Base ex_network)), Inr ())"
    by (simp add: s c nonempty_def)
  then show ?thesis using s w m f by simp
qed

section \<open>Properties of cls\_model\<close>

lemma classifier_layers:
  "classifier n base =
     [\<lparr> name = None, kind = Activation ''relu'',
         layer_output = Call (Activation ''relu'') None base \<rparr>,
      \<lparr> name = None, kind = BatchNormalization,
         layer_output = Call BatchNormalization None (Call (Activation ''relu'') None base) \<rparr>,
      \<lparr> name = Some ''prob'', kind = Dense n ''softmax'' (5 / 10000),
         layer_output =
           Call (Dense n ''softmax'' (5 / 10000)) (Some ''prob'')
             (Call BatchNormalization None (Call (Activation ''relu'') None base)) \<rparr>]"
  by (simp add: classifier_def call_layer_def Let_def)

lemma classifier_output:
  "layer_output (last (classifier n base)) =
     Call (Dense n ''softmax'' (5 / 10000)) (Some ''prob'')
       (Call BatchNormalization None (Call (Activation ''relu'') None base))"
  by (simp add: classifier_layers)

lemma cls_model_Inr:
  "cls_model py_int em n cb = Inr m \<longleftrightarrow>
     (\<exists>base out. cls_base_tensor py_int em cb = Inr base \<and> outputs em = [out]
        \<and> m = Model em (classifier n base) [out, layer_output (last (classifier n base))])"
  by (auto simp: cls_model_def Let_def model_output_def split: sum.splits list.splits)

lemma cls_model_single:
  "outputs em = [out] \<Longrightarrow>
     cls_model py_int em n cb =
       (case cls_base_tensor py_int em cb of
          Inl e \<Rightarrow> Inl e
        | Inr base \<Rightarrow>
            Inr (Model em (classifier n base) [out, layer_output (last (classifier n base))]))"
  by (simp add: cls_model_def Let_def model_output_def split: sum.splits)

text \<open>
  C8. Whenever \<open>cls_model\<close> returns a model, that model has exactly two outputs, the
  first being the one output of \<open>embed_model\<close>, and the inputs of \<open>embed_model\<close>; the
  second output is the softmax layer \<open>prob\<close> on batch normalization on ReLU on the base
  tensor. For an \<open>embed_model\<close> with one output the base tensor is
  \<^item> that output when \<open>cls_base\<close> is \<open>None\<close>, and the call returns;
  \<^item> the output of \<open>embed_model.layers[i]\<close> (Python list indexing) when \<open>int(cls_base)\<close>
    is \<open>i\<close>, and the call returns when \<open>i\<close> is a valid index and raises IndexError
    otherwise;
  \<^item> the output of the first layer named \<open>cls_base\<close> when \<open>int(cls_base)\<close> raises
    ValueError, and the call returns when there is such a layer and raises ValueError
    otherwise.
\<close>

theorem cls_model_two_outputs:
  "(cls_model py_int em n cb = Inr m \<longrightarrow>
      (\<exists>out base. outputs em = [out] \<and> inputs m = inputs em
         \<and> outputs m = [out, Call (Dense n ''softmax'' (5 / 10000)) (Some ''prob'')
                               (Call BatchNormalization None (Call (Activation ''relu'') None base))]
         \<and> cls_base_tensor py_int em cb = Inr base))
   \<and> (outputs em = [out] \<longrightarrow>
        (cb = None \<longrightarrow>
           cls_base_tensor py_int em cb = Inr out \<and> (\<exists>m'. cls_model py_int em n cb = Inr m'))
      \<and> (\<forall>s i. cb = Some s \<and> py_int s = Some i \<longrightarrow>
           (0 \<le> i \<and> i < int (length (layers em)) \<longrightarrow>
              cls_base_tensor py_int em cb = Inr (layer_output (layers em ! nat i))
              \<and> (\<exists>m'. cls_model py_int em n cb = Inr m'))
         \<and> (i < 0 \<and> - int (length (layers em)) \<le> i \<longrightarrow>
              cls_base_tensor py_int em cb
                = Inr (layer_output (layers em ! nat (i + int (length (layers em)))))
              \<and> (\<exists>m'. cls_model py_int em n cb = Inr m'))
         \<and> (i < - int (length (layers em)) \<or> int (length (layers em)) \<le> i \<longrightarrow>
              cls_model py_int em n cb = Inl IndexError))
      \<and> (\<forall>s. cb = Some s \<and> py_int s = None \<longrightarrow>
           (\<forall>l. s \<noteq> [] \<and> find (\<lambda>l. name l = Some s) (layers em) = Some l \<longrightarrow>
              cls_base_tensor py_int em cb = Inr (layer_output l)
              \<and> (\<exists>m'. cls_model py_int em n cb = Inr m'))
         \<and> (s = [] \<or> find (\<lambda>l. name l = Some s) (layers em) = None \<longrightarrow>
              cls_model py_int em n cb = Inl ValueError)))"
proof (intro conjI impI allI)
  assume "cls_model py_int em n cb = Inr m"
  then obtain base out where
    "cls_base_tensor py_int em cb = Inr base" "outputs em = [out]"
    "m = Model em (classifier n base) [out, layer_output (last (classifier n base))]"
    unfolding cls_model_Inr by blast
  then show "\<exists>out base. outputs em = [out] \<and> inputs m = inputs em
         \<and> outputs m = [out, Call (Dense n ''softmax'' (5 / 10000)) (Some ''prob'')
                               (Call BatchNormalization None (Call (Activation ''relu'') None base))]
         \<and> cls_base_tensor py_int em cb = Inr base"
    by (simp add: Model_def classifier_output)
next
  assume o: "outputs em = [out]" and cb: "cb = None"
  show b: "cls_base_tensor py_int em cb = Inr out"
    using o cb by (simp add: cls_base_tensor_def model_output_def)
  show "\<exists>m'. cls_model py_int em n cb = Inr m'"
    by (simp add: cls_model_single [OF o] b)
next
  fix s i
  assume o: "outputs em = [out]" and cb: "cb = Some s \<and> py_int s = Some i"
    and i: "0 \<le> i \<and> i < int (length (layers em))"
  show b: "cls_base_tensor py_int em cb = Inr (layer_output (layers em ! nat i))"
    using cb i by (simp add: cls_base_tensor_def py_index_def)
  show "\<exists>m'. cls_model py_int em n cb = Inr m'"
    by (simp add: cls_model_single [OF o] b)
next
  fix s i
  assume o: "outputs em = [out]" and cb: "cb = Some s \<and> py_int s = Some i"
    and i: "i < 0 \<and> - int (length (layers em)) \<le> i"
  show b: "cls_base_tensor py_int em cb
             = Inr (layer_output (layers em ! nat (i + int (length (layers em)))))"
    using cb i by (simp add: cls_base_tensor_def py_index_def)
  show "\<exists>m'. cls_model py_int em n cb = Inr m'"
    by (simp add: cls_model_single [OF o] b)
next
  fix s i
  assume o: "outputs em = [out]" and cb: "cb = Some s \<and> py_int s = Some i"
    and i: "i < - int (length (layers em)) \<or> int (length (layers em)) \<le> i"
  have "cls_base_tensor py_int em cb = Inl IndexError"
    using cb i by (auto simp: cls_base_tensor_def py_index_def)
  then show "cls_model py_int em n cb = Inl IndexError"
    by (simp add: cls_model_single [OF o])
next
  fix s l
  assume o: "outputs em = [out]" and cb: "cb = Some s \<and> py_int s = None"
    and l: "s \<noteq> [] \<and> find (\<lambda>l. name l = Some s) (layers em) = Some l"
  show b: "cls_base_tensor py_int em cb = Inr (layer_output l)"
    using cb l by (simp add: cls_base_tensor_def get_layer_def)
  show "\<exists>m'. cls_model py_int em n cb = Inr m'"
    by (simp add: cls_model_single [OF o] b)
next
  fix s
  assume o: "outputs em = [out]" and cb: "cb = Some s \<and> py_int s = None"
    and l: "s = [] \<or> find (\<lambda>l. name l = Some s) (layers em) = None"
  have "cls_base_tensor py_int em cb = Inl ValueError"
    using cb l by (auto simp: cls_base_tensor_def get_layer_def)
  then show "cls_model py_int em n cb = Inl ValueError"
    by (simp add: cls_model_single [OF o])
qed

theorem cls_model_two_outputs_witness:
  "outputs ex_network = [Network_tensor ''embedding'']
   \<and> int_of_str ''1'' = Some 1 \<and> int_of_str ''-1'' = Some (- 1) \<and> int_of_str ''7'' = Some 7
   \<and> int_of_str ''pool'' = None \<and> int_of_str ''fc'' = None
   \<and> (\<exists>m. cls_model int_of_str ex_network 10 (Some ''1'') = Inr m
          \<and> outputs m = [Network_tensor ''embedding'',
               Call (Dense 10 ''softmax'' (5 / 10000)) (Some ''prob'')
                 (Call BatchNormalization None
                    (Call (Activation ''relu'') None (Network_tensor ''pool'')))])
   \<and> (\<exists>m. cls_model int_of_str ex_network 10 (Some ''pool'') = Inr m
          \<and> outputs m = [Network_tensor ''embedding'',
               Call (Dense 10 ''softmax'' (5 / 10000)) (Some ''prob'')
                 (Call BatchNormalization None
                    (Call (Activation ''relu'') None (Network_tensor ''pool'')))])
   \<and> (\<exists>m. cls_model int_of_str ex_network 10 (Some ''-1'') = Inr m
          \<and> outputs m = [Network_tensor ''embedding'',
               Call (Dense 10 ''softmax'' (5 / 10000)) (Some ''prob'')
                 (Call BatchNormalization None
                    (Call (Activation ''relu'') None (Network_tensor ''embedding'')))])
   \<and> (\<exists>m. cls_model int_of_str ex_network 10 None = Inr m
          \<and> outputs m = [Network_tensor ''embedding'',
               Call (Dense 10 ''softmax'' (5 / 10000)) (Some ''prob'')
                 (Call BatchNormalization None
                    (Call (Activation ''relu'') None (Network_tensor ''embedding'')))])
   \<and> cls_model int_of_str ex_network 10 (Some ''7'') = Inl IndexError
   \<and> cls_model int_of_str ex_network 10 (Some ''fc'') = Inl ValueError"
proof -
  note ex = ex_network_simps int_of_str_examples
  let ?out = "Network_tensor ''embedding''"
  have a: "\<exists>m. cls_model int_of_str ex_network 10 (Some ''1'') = Inr m
          \<and> outputs m = [Network_tensor ''embedding'',
               Call (Dense 10 ''softmax'' (5 / 10000)) (Some ''prob'')
                 (Call BatchNormalization None
                    (Call (Activation ''relu'') None (Network_tensor ''pool'')))]"
  proof -
    from cls_model_two_outputs [of int_of_str ex_network 10 "Some ''1''" _ ?out]
    obtain m' where m': "cls_model int_of_str ex_network 10 (Some ''1'') = Inr m'"
      and b: "cls_base_tensor int_of_str ex_network (Some ''1'') = Inr (Network_tensor ''pool'')"
      by (auto simp: ex)
    from cls_model_two_outputs [of int_of_str ex_network 10 "Some ''1''" m' ?out] m' b
    show ?thesis by (auto simp: ex)
  qed
  have b: "\<exists>m. cls_model int_of_str ex_network 10 (Some ''pool'') = Inr m
          \<and> outputs m = [Network_tensor ''embedding'',
               Call (Dense 10 ''softmax'' (5 / 10000)) (Some ''prob'')
                 (Call BatchNormalization None
                    (Call (Activation ''relu'') None (Network_tensor ''pool'')))]"
  proof -
    from cls_model_two_outputs [of int_of_str ex_network 10 "Some ''pool''" _ ?out]
    obtain m' where m': "cls_model int_of_str ex_network 10 (Some ''pool'') = Inr m'"
      and b: "cls_base_tensor int_of_str ex_network (Some ''pool'') = Inr (Network_tensor ''pool'')"
      by (auto simp: ex)
    from cls_model_two_outputs [of int_of_str ex_network 10 "Some ''pool''" m' ?out] m' b
    show ?thesis by (auto simp: ex)
  qed
  have c: "\<exists>m. cls_model int_of_str ex_network 10 (Some ''-1'') = Inr m
          \<and> outputs m = [Network_tensor ''embedding'',
               Call (Dense 10 ''softmax'' (5 / 10000)) (Some ''prob'')
                 (Call BatchNormalization None
                    (Call (Activation ''relu'') None (Network_tensor ''embedding'')))]"
  proof -
    from cls_model_two_outputs [of int_of_str ex_network 10 "Some ''-1''" _ ?out]
    obtain m' where m': "cls_model int_of_str ex_network 10 (Some ''-1'') = Inr m'"
      and b: "cls_base_tensor int_of_str ex_network (Some ''-1'') = Inr (Network_tensor ''embedding'')"
      by (auto simp: ex)
    from cls_model_two_outputs [of int_of_str ex_network 10 "Some ''-1''" m' ?out] m' b
    show ?thesis by (auto simp: ex)
  qed
  have d: "\<exists>m. cls_model int_of_str ex_network 10 None = Inr m
          \<and> outputs m = [Network_tensor ''embedding'',
               Call (Dense 10 ''softmax'' (5 / 10000)) (Some ''prob'')
                 (Call BatchNormalization None
                    (Call (Activation ''relu'') None (Network_tensor ''embedding'')))]"
  proof -
    from cls_model_two_outputs [of int_of_str ex_network 10 None _ ?out]
    obtain m' where m': "cls_model int_of_str ex_network 10 None = Inr m'"
      and b: "cls_base_tensor int_of_str ex_network None = Inr (Network_tensor ''embedding'')"
      by (auto simp: ex)
    from cls_model_two_outputs [of int_of_str ex_network 10 None m' ?out] m' b
    show ?thesis by (auto simp: ex)
  qed
  have e: "cls_model int_of_str ex_network 10 (Some ''7'') = Inl IndexError"
    using cls_model_two_outputs [of int_of_str ex_network 10 "Some ''7''" _ ?out]
    by (simp add: ex)
  have f: "cls_model int_of_str ex_network 10 (Some ''fc'') = Inl ValueError"
    using cls_model_two_outputs [of int_of_str ex_network 10 "Some ''fc''" _ ?out]
    by (simp add: ex)
  from a b c d e f show ?thesis by (simp add: ex)
qed

section \<open>The learning rate decay\<close>






section \<open>The validation batch size\<close>

lemma pretrain_test_batches:
  "\<forall>e \<in> set (fst (pretrain a c kw l m)). \<forall>b \<in> set (test_batch_sizes e). b = val_batch_size a"
  by (auto simp: pretrain_def fst_and_then test_batch_sizes_def split: option.splits sum.splits)

lemma train_test_batches:
  "\<forall>e \<in> set (fst (train a c kw l m cbs ne decay)). \<forall>b \<in> set (test_batch_sizes e). b = val_batch_size a"
  by (auto simp: train_def test_batch_sizes_def)

lemma schedule_test_batches:
  "\<forall>e \<in> set (fst (schedule env a dg mo)). test_batch_sizes e = []"
  by (auto simp: schedule_def fst_and_then test_batch_sizes_def split: option.splits prod.splits)

lemma dumps_test_batches:
  "\<forall>e \<in> set (fst (dumps env a dg c)). test_batch_sizes e = []"
  by (auto dest!: dumps_events simp: test_batch_sizes_def)

lemma after_loading_test_batches:
  "\<forall>e \<in> set (fst (after_loading env a embed_labels emb)).
     \<forall>b \<in> set (test_batch_sizes e). b = val_batch_size a"
proof (intro ballI)
  fix e b
  assume e: "e \<in> set (fst (after_loading env a embed_labels emb))"
    and b: "b \<in> set (test_batch_sizes e)"
  let ?dg = "get_data_generator env (dataset a) (data_root a) embed_labels"
  from after_loading_events [OF e] consider
      "e = Get_data_generator (dataset a) (data_root a) embed_labels"
    | "e \<in> set (fst (construct_model env a emb ?dg))"
    | c where "e \<in> set (fst (after_construction env a emb ?dg c))"
    by blast
  then show "b = val_batch_size a"
  proof cases
    case 1
    with b show ?thesis by (simp add: test_batch_sizes_def)
  next
    case 2
    from construct_model_events [OF 2] b show ?thesis
      by (cases e) (auto simp: test_batch_sizes_def)
  next
    case 3
    from after_construction_events [OF 3] b show ?thesis
      using pretrain_test_batches train_test_batches schedule_test_batches dumps_test_batches
      by (fastforce simp: test_batch_sizes_def)
  qed
qed

lemma main_test_batches:
  "\<forall>e \<in> set (fst (main env a0)).
     \<forall>b \<in> set (test_batch_sizes e). b = val_batch_size (default_val_batch_size a0)"
proof (intro ballI)
  fix e b
  assume e: "e \<in> set (fst (main env a0))" and b: "b \<in> set (test_batch_sizes e)"
  from main_events [OF e] b show "b = val_batch_size (default_val_batch_size a0)"
    using after_loading_test_batches by (fastforce simp: test_batch_sizes_def)
qed

lemma pretrain_validation:
  "Fit_generator pm fa \<in> set (fst (pretrain a c kw l m)) \<Longrightarrow>
     validation_data fa = Test_sequence (val_batch_size a) kw"
  by (auto simp: pretrain_def fst_and_then split: option.splits sum.splits if_splits)

lemma train_validation:
  "Fit_generator pm fa \<in> set (fst (train a c kw l m cbs ne decay)) \<Longrightarrow>
     validation_data fa = Test_sequence (val_batch_size a) kw"
  by (auto simp: train_def split: if_splits)

lemma after_loading_validation:
  assumes "Fit_generator pm fa \<in> set (fst (after_loading env a embed_labels emb))"
  shows "\<exists>kw. validation_data fa = Test_sequence (val_batch_size a) kw"
proof -
  let ?dg = "get_data_generator env (dataset a) (data_root a) embed_labels"
  from after_loading_events [OF assms] consider
      "Fit_generator pm fa \<in> set (fst (construct_model env a emb ?dg))"
    | c where "Fit_generator pm fa \<in> set (fst (after_construction env a emb ?dg c))"
    by blast
  then show ?thesis
  proof cases
    case 1
    from construct_model_events [OF 1] show ?thesis by simp
  next
    case 2
    from after_construction_events [OF 2] show ?thesis
      by (auto dest: pretrain_validation train_validation schedule_events dumps_events)
  qed
qed

text \<open>
  C10. When \<open>--val_batch_size\<close> is not supplied, the validation batch size becomes the
  training batch size, and every \<open>test_sequence\<close> that the run constructs (as
  validation data of a \<open>fit_generator\<close> call, for the final evaluation, for the
  prediction of the class probabilities) is given that value; when it is supplied, they
  are given the supplied value. The validation data of every \<open>fit_generator\<close> call is
  such a test sequence. (The feature dump reads the test images through
  \<open>flow_test(1, False)\<close>, which is not a sequence.)
\<close>

theorem validation_batch_size_default:
  "(val_batch_size a0 = None \<longrightarrow>
      val_batch_size (default_val_batch_size a0) = Some (batch_size a0)
      \<and> (\<forall>e \<in> set (fst (main env a0)). \<forall>b \<in> set (test_batch_sizes e). b = Some (batch_size a0)))
   \<and> (\<forall>v. val_batch_size a0 = Some v \<longrightarrow>
        (\<forall>e \<in> set (fst (main env a0)). \<forall>b \<in> set (test_batch_sizes e). b = Some v))
   \<and> (\<forall>e \<in> set (fst (main env a0)). \<forall>pm fa. e = Fit_generator pm fa \<longrightarrow>
        (\<exists>kw. validation_data fa = Test_sequence (val_batch_size (default_val_batch_size a0)) kw))"
proof (intro conjI impI allI ballI)
  assume "val_batch_size a0 = None"
  then show d: "val_batch_size (default_val_batch_size a0) = Some (batch_size a0)"
    by (simp add: default_val_batch_size_def)
  fix e b assume "e \<in> set (fst (main env a0))" "b \<in> set (test_batch_sizes e)"
  with main_test_batches [of env a0] d show "b = Some (batch_size a0)" by auto
next
  fix v e b
  assume "val_batch_size a0 = Some v"
  then have d: "val_batch_size (default_val_batch_size a0) = Some v"
    by (simp add: default_val_batch_size_def)
  assume "e \<in> set (fst (main env a0))" "b \<in> set (test_batch_sizes e)"
  with main_test_batches [of env a0] d show "b = Some v" by auto
next
  fix e pm fa
  assume "e \<in> set (fst (main env a0))" "e = Fit_generator pm fa"
  then have "Fit_generator pm fa \<in> set (fst (main env a0))" by simp
  from main_events [OF this]
  show "\<exists>kw. validation_data fa = Test_sequence (val_batch_size (default_val_batch_size a0)) kw"
    by (auto dest: after_loading_validation)
qed

theorem validation_batch_size_default_witness:
  "val_batch_size ex_args = None \<and> batch_size ex_args = 100
   \<and> snd (main ex_env ex_args) = Inr ()
   \<and> concat (map test_batch_sizes (fst (main ex_env ex_args))) = [Some 100, Some 100]"
proof -
  let ?sizes = "concat (map test_batch_sizes (fst (main ex_env ex_args)))"
  have ran: "snd (main ex_env ex_args) = Inr ()" by code_simp
  have len: "length ?sizes = 2" by code_simp
  from validation_batch_size_default [of ex_args ex_env]
  have all: "\<forall>b \<in> set ?sizes. b = Some 100"
    by (auto simp: ex_args_simps)
  from len obtain x y where xy: "?sizes = [x, y]"
    by (auto simp: length_Suc_conv numeral_2_eq_2)
  with all have "x = Some 100" "y = Some 100" by simp_all
  with xy ran show ?thesis by (simp add: ex_args_simps)
qed

section \<open>Loading the class embeddings\<close>

lemma getitem_str_Inr:
  "getitem_str obj k = Inr v \<longleftrightarrow> (\<exists>kvs. obj = Pydict kvs \<and> map_of kvs k = Some v)"
  by (auto simp: getitem_str_def split: pyobj.splits option.splits)

lemma load_class_embeddings_events:
  "fst (load_class_embeddings env a) = [Open_and_unpickle (embedding a)]"
  by (simp add: load_class_embeddings_def fst_and_then split: option.splits sum.splits)

lemma load_class_embeddings_Inr:
  "snd (load_class_embeddings env a) = Inr (embed_labels, emb) \<longleftrightarrow>
     (\<exists>kvs. pickle_load env (embedding a) = Some (Pydict kvs)
        \<and> map_of kvs ''ind2label'' = Some embed_labels \<and> map_of kvs ''embedding'' = Some emb)"
proof
  assume "snd (load_class_embeddings env a) = Inr (embed_labels, emb)"
  then show "\<exists>kvs. pickle_load env (embedding a) = Some (Pydict kvs)
        \<and> map_of kvs ''ind2label'' = Some embed_labels \<and> map_of kvs ''embedding'' = Some emb"
    by (auto simp: load_class_embeddings_def snd_and_then getitem_str_Inr
             split: option.splits sum.splits)
next
  assume "\<exists>kvs. pickle_load env (embedding a) = Some (Pydict kvs)
        \<and> map_of kvs ''ind2label'' = Some embed_labels \<and> map_of kvs ''embedding'' = Some emb"
  then obtain kvs where "pickle_load env (embedding a) = Some (Pydict kvs)"
    "getitem_str (Pydict kvs) ''ind2label'' = Inr embed_labels"
    "getitem_str (Pydict kvs) ''embedding'' = Inr emb"
    by (auto simp: getitem_str_Inr)
  then show "snd (load_class_embeddings env a) = Inr (embed_labels, emb)"
    by (simp add: load_class_embeddings_def snd_and_then)
qed

lemma shape_1_Inr:
  "shape_1 emb = Inr d \<longleftrightarrow> (\<exists>sh rs. emb = Ndarray sh rs \<and> 1 < length sh \<and> d = sh ! 1)"
  by (auto simp: shape_1_def py_index_def split: pyobj.splits)

lemma build_model_Build_network:
  assumes "Build_network dev d arch \<in> set (fst (build_model env a emb dg dev'))"
  shows "shape_1 emb = Inr d \<and> arch = architecture a \<and> resume_from env a = None"
proof (cases "resume_from env a")
  case None
  with assms show ?thesis by (auto simp: build_model_built split: sum.splits)
next
  case (Some p)
  with assms show ?thesis by (simp add: build_model_resumed)
qed

lemma construct_model_Build_network:
  assumes "Build_network dev d arch \<in> set (fst (construct_model env a emb dg))"
  shows "shape_1 emb = Inr d \<and> arch = architecture a \<and> resume_from env a = None"
proof -
  let ?dev = "if gpus a \<le> 1 \<or> gpu_merge a then Default_device else Cpu0"
  from assms have "Build_network dev d arch \<in> set (fst (build_model env a emb dg ?dev))"
    by (auto simp: construct_model_unfold Let_def split: prod.splits sum.splits)
  then show ?thesis by (rule build_model_Build_network)
qed

lemma pretrain_no_construction:
  "\<forall>e \<in> set (fst (pretrain a c kw l m)). \<not> is_construction e"
  by (auto simp: pretrain_def fst_and_then split: option.splits sum.splits)

lemma train_no_construction:
  "\<forall>e \<in> set (fst (train a c kw l m cbs ne decay)). \<not> is_construction e"
  by (auto simp: train_def)

lemma after_construction_no_construction:
  assumes "e \<in> set (fst (after_construction env a emb dg c))"
  shows "\<not> is_construction e"
  using after_construction_events [OF assms] pretrain_no_construction train_no_construction
  by (auto dest: schedule_events dumps_events)

lemma after_loading_construction:
  assumes "e \<in> set (fst (after_loading env a embed_labels emb))" "is_construction e"
  shows "e \<in> set (fst (construct_model env a emb
                         (get_data_generator env (dataset a) (data_root a) embed_labels)))"
  using after_loading_events [OF assms(1)] assms(2)
  by (auto dest: after_construction_no_construction)

lemma main_construction:
  assumes "e \<in> set (fst (main env a0))" "is_construction e"
  shows "\<exists>embed_labels emb.
           snd (load_class_embeddings env (default_val_batch_size a0)) = Inr (embed_labels, emb)
           \<and> e \<in> set (fst (construct_model env (default_val_batch_size a0) emb
                  (get_data_generator env (dataset a0) (data_root a0) embed_labels)))"
proof -
  from main_events [OF assms(1)] assms(2) obtain embed_labels emb where
    l: "snd (load_class_embeddings env (default_val_batch_size a0)) = Inr (embed_labels, emb)"
    and e: "e \<in> set (fst (after_loading env (default_val_batch_size a0) embed_labels emb))"
    by auto
  from after_loading_construction [OF e assms(2)]
  have "e \<in> set (fst (construct_model env (default_val_batch_size a0) emb
                  (get_data_generator env (dataset a0) (data_root a0) embed_labels)))"
    by (simp add: default_val_batch_size_def split: option.splits)
  with l show ?thesis by blast
qed

lemma default_val_batch_size_fields [simp]:
  "embedding (default_val_batch_size a) = embedding a"
  "architecture (default_val_batch_size a) = architecture a"
  "dataset (default_val_batch_size a) = dataset a"
  "data_root (default_val_batch_size a) = data_root a"
  by (simp_all add: default_val_batch_size_def split: option.splits)

lemma main_starts:
  "fst (main env a0) =
     Set_session # Open_and_unpickle (embedding a0)
       # (case snd (load_class_embeddings env (default_val_batch_size a0)) of
            Inl e \<Rightarrow> []
          | Inr (embed_labels, emb) \<Rightarrow>
              fst (after_loading env (default_val_batch_size a0) embed_labels emb))"
  by (simp add: main_def Let_def fst_and_then load_class_embeddings_events
           split: sum.splits prod.splits)

lemma main_load_failed:
  "snd (load_class_embeddings env (default_val_batch_size a0)) = Inl e \<Longrightarrow>
     main env a0 = ([Set_session, Open_and_unpickle (embedding a0)], Inl e)"
  by (simp add: main_def Let_def prod_eq_iff fst_and_then snd_and_then load_class_embeddings_events)

text \<open>
  C5. Every run opens and unpickles the file \<open>--embedding\<close> right after the session
  is configured, before any other call. The loading returns the labels and the matrix
  exactly when the file holds a dictionary with the keys \<open>ind2label\<close> and
  \<open>embedding\<close>, and then returns their values; when the file does not hold such a
  dictionary, the run ends with an exception after these two calls. So a model is loaded
  or built only after such a file was read. Every call of \<open>utils.build_network\<close> in a
  run is given the architecture \<open>--architecture\<close> and the second entry of the shape
  of the array stored under \<open>embedding\<close>.
\<close>

theorem class_embeddings_loaded_first:
  "(\<exists>rest. fst (main env a0) = Set_session # Open_and_unpickle (embedding a0) # rest)
   \<and> (\<forall>embed_labels emb.
        snd (load_class_embeddings env a0) = Inr (embed_labels, emb) \<longleftrightarrow>
          (\<exists>kvs. pickle_load env (embedding a0) = Some (Pydict kvs)
             \<and> map_of kvs ''ind2label'' = Some embed_labels
             \<and> map_of kvs ''embedding'' = Some emb))
   \<and> ((\<nexists>kvs embed_labels emb. pickle_load env (embedding a0) = Some (Pydict kvs)
             \<and> map_of kvs ''ind2label'' = Some embed_labels
             \<and> map_of kvs ''embedding'' = Some emb) \<longrightarrow>
        (\<exists>e. main env a0 = ([Set_session, Open_and_unpickle (embedding a0)], Inl e)))
   \<and> (\<forall>e \<in> set (fst (main env a0)). is_construction e \<longrightarrow>
        (\<exists>kvs embed_labels emb. pickle_load env (embedding a0) = Some (Pydict kvs)
             \<and> map_of kvs ''ind2label'' = Some embed_labels
             \<and> map_of kvs ''embedding'' = Some emb))
   \<and> (\<forall>dev d arch. Build_network dev d arch \<in> set (fst (main env a0)) \<longrightarrow>
        arch = architecture a0
        \<and> (\<exists>kvs sh rs. pickle_load env (embedding a0) = Some (Pydict kvs)
              \<and> map_of kvs ''embedding'' = Some (Ndarray sh rs)
              \<and> 1 < length sh \<and> d = sh ! 1))"
proof (intro conjI allI impI ballI)
  show "\<exists>rest. fst (main env a0) = Set_session # Open_and_unpickle (embedding a0) # rest"
    by (simp add: main_starts)
next
  fix embed_labels emb
  show "snd (load_class_embeddings env a0) = Inr (embed_labels, emb) \<longleftrightarrow>
          (\<exists>kvs. pickle_load env (embedding a0) = Some (Pydict kvs)
             \<and> map_of kvs ''ind2label'' = Some embed_labels
             \<and> map_of kvs ''embedding'' = Some emb)"
    by (rule load_class_embeddings_Inr)
next
  assume no: "\<nexists>kvs embed_labels emb. pickle_load env (embedding a0) = Some (Pydict kvs)
             \<and> map_of kvs ''ind2label'' = Some embed_labels
             \<and> map_of kvs ''embedding'' = Some emb"
  obtain e where "snd (load_class_embeddings env (default_val_batch_size a0)) = Inl e"
  proof (cases "snd (load_class_embeddings env (default_val_batch_size a0))")
    case (Inl e)
    then show ?thesis by (rule that)
  next
    case (Inr x)
    then have False using no by (cases x) (auto simp: load_class_embeddings_Inr)
    then show ?thesis ..
  qed
  then show "\<exists>e. main env a0 = ([Set_session, Open_and_unpickle (embedding a0)], Inl e)"
    by (auto dest: main_load_failed)
next
  fix e assume "e \<in> set (fst (main env a0))" "is_construction e"
  from main_construction [OF this]
  show "\<exists>kvs embed_labels emb. pickle_load env (embedding a0) = Some (Pydict kvs)
             \<and> map_of kvs ''ind2label'' = Some embed_labels
             \<and> map_of kvs ''embedding'' = Some emb"
    by (auto simp: load_class_embeddings_Inr)
next
  fix dev d arch
  assume b: "Build_network dev d arch \<in> set (fst (main env a0))"
  have "is_construction (Build_network dev d arch)" by simp
  from main_construction [OF b this] obtain embed_labels emb where
    l: "snd (load_class_embeddings env (default_val_batch_size a0)) = Inr (embed_labels, emb)"
    and c: "Build_network dev d arch \<in> set (fst (construct_model env (default_val_batch_size a0) emb
                  (get_data_generator env (dataset a0) (data_root a0) embed_labels)))"
    by blast
  from construct_model_Build_network [OF c]
  have s: "shape_1 emb = Inr d" and a: "arch = architecture a0" by simp_all
  show "arch = architecture a0" by (rule a)
  from l s show "\<exists>kvs sh rs. pickle_load env (embedding a0) = Some (Pydict kvs)
              \<and> map_of kvs ''embedding'' = Some (Ndarray sh rs)
              \<and> 1 < length sh \<and> d = sh ! 1"
    by (auto simp: load_class_embeddings_Inr shape_1_Inr)
qed

theorem class_embeddings_loaded_first_witness:
  "pickle_load ex_env (embedding ex_args)
     = Some (Pydict [(''ind2label'', Pylist [''cat'', ''dog'', ''bird'']),
                     (''embedding'', Ndarray [3, 2] [[1, 0], [0, 1], [1, 1]])])
   \<and> take 4 (fst (main ex_env ex_args))
     = [Set_session, Open_and_unpickle ''emb.pickle'',
        Get_data_generator ''CIFAR-10'' ''/data'' (Pylist [''cat'', ''dog'', ''bird'']),
        Build_network Default_device ([3, 2] ! 1) ''simple'']
   \<and> filter is_construction (fst (main ex_env ex_args))
     = [Build_network Default_device 2 ''simple'']
   \<and> (\<exists>e. main ex_env (ex_args\<lparr> embedding := ''missing'' \<rparr>)
           = ([Set_session, Open_and_unpickle ''missing''], Inl e))"
proof -
  have pickled: "pickle_load ex_env (embedding ex_args)
     = Some (Pydict [(''ind2label'', Pylist [''cat'', ''dog'', ''bird'']),
                     (''embedding'', Ndarray [3, 2] [[1, 0], [0, 1], [1, 1]])])"
    by (simp add: ex_env_def ex_args_simps ex_pickle_def ex_matrix_def)
  have first: "take 4 (fst (main ex_env ex_args))
     = [Set_session, Open_and_unpickle ''emb.pickle'',
        Get_data_generator ''CIFAR-10'' ''/data'' (Pylist [''cat'', ''dog'', ''bird'']),
        Build_network Default_device 2 ''simple'']"
    by code_simp
  have constr: "filter is_construction (fst (main ex_env ex_args))
     = [Build_network Default_device 2 ''simple'']"
    by code_simp
  have "Build_network Default_device 2 ''simple''
          \<in> set (filter is_construction (fst (main ex_env ex_args)))"
    unfolding constr by simp
  then have b: "Build_network Default_device 2 ''simple'' \<in> set (fst (main ex_env ex_args))"
    by simp
  note builds = class_embeddings_loaded_first [of ex_env ex_args, THEN conjunct2,
      THEN conjunct2, THEN conjunct2, THEN conjunct2, rule_format, OF b]
  from builds obtain kvs sh rs where
    "pickle_load ex_env (embedding ex_args) = Some (Pydict kvs)"
    "map_of kvs ''embedding'' = Some (Ndarray sh rs)" "2 = sh ! 1"
    by blast
  with pickled have dim: "(2::nat) = [3, 2] ! 1" by simp
  have missing: "pickle_load ex_env (embedding (ex_args\<lparr> embedding := ''missing'' \<rparr>)) = None"
    by (simp add: ex_env_def)
  note fails = class_embeddings_loaded_first [of ex_env "ex_args\<lparr> embedding := ''missing'' \<rparr>",
      THEN conjunct2, THEN conjunct2, THEN conjunct1, rule_format]
  have failed: "\<exists>e. main ex_env (ex_args\<lparr> embedding := ''missing'' \<rparr>)
           = ([Set_session, Open_and_unpickle ''missing''], Inl e)"
    using fails missing by simp
  from pickled first constr failed dim show ?thesis by simp
qed

section \<open>The classification head\<close>









section \<open>Snapshots\<close>

lemma schedule_result:
  "snd (schedule env a dg m) =
     Inr (fst (get_lr_schedule env (lr_schedule a) (num_train dg) (batch_size a) a)
            @ log_dir_callbacks a @ snapshot_callbacks a m,
          snd (get_lr_schedule env (lr_schedule a) (num_train dg) (batch_size a) a))"
  by (simp add: schedule_def snd_and_then split: prod.splits)

lemma snapshot_callbacks_simps:
  "snapshot a = Some p \<Longrightarrow> p \<noteq> [] \<Longrightarrow>
     snapshot_callbacks a m =
       [if gpus a \<le> 1 then ModelCheckpoint p else TemplateModelCheckpoint m p]"
  "snapshot a = None \<Longrightarrow> snapshot_callbacks a m = []"
  "snapshot a = Some [] \<Longrightarrow> snapshot_callbacks a m = []"
  by (simp_all add: snapshot_callbacks_def nonempty_def)

lemma pretrain_callbacks:
  "Fit_generator pm fa \<in> set (fst (pretrain a c kw l mt)) \<Longrightarrow> callbacks fa = None"
  by (auto simp: pretrain_def fst_and_then split: option.splits sum.splits if_splits)

lemma train_callbacks:
  "Fit_generator pm fa \<in> set (fst (train a c kw l mt cbs ne decay)) \<Longrightarrow> callbacks fa = Some cbs"
  by (auto simp: train_def split: if_splits)

lemma after_construction_callbacks:
  assumes "Fit_generator pm fa \<in> set (fst (after_construction env a emb dg c))"
    and "callbacks fa \<noteq> None"
  shows "callbacks fa =
           Some (fst (get_lr_schedule env (lr_schedule a) (num_train dg) (batch_size a) a)
                   @ log_dir_callbacks a @ snapshot_callbacks a (the_model c))"
  using after_construction_events [OF assms(1)] assms(2)
  by (auto simp: schedule_result
           dest: pretrain_callbacks train_callbacks schedule_events dumps_events)

text \<open>
  C4, as the script does it. The run resumes from \<open>p\<close> exactly when \<open>--snapshot\<close> is
  the non-empty string \<open>p\<close> and \<open>os.path.exists(p)\<close> holds. Then the construction
  prints a message and calls \<open>keras.models.load_model(p)\<close> on the device of the run,
  makes no other call (\<open>utils.build_network\<close> is not called), and returns the loaded
  model. When \<open>--snapshot\<close> is a non-empty string \<open>p\<close>, the callbacks are those of
  the schedule, then the TensorBoard callback if there is one, then one checkpoint
  callback for \<open>p\<close>: \<open>ModelCheckpoint(p)\<close> with \<open>gpus \<le> 1\<close> and
  \<open>TemplateModelCheckpoint(model, p)\<close> otherwise; and every \<open>fit_generator\<close> call
  after the construction that is given callbacks is given these. When \<open>--snapshot\<close>
  is absent or empty, no checkpoint callback is added.
\<close>

theorem snapshot_resume_and_checkpoint:
  "(resume_from env a = Some p \<longleftrightarrow> snapshot a = Some p \<and> p \<noteq> [] \<and> path_exists env p)
   \<and> (snapshot a = Some p \<and> p \<noteq> [] \<and> path_exists env p \<longrightarrow>
        fst (construct_model env a emb dg)
          = [Print (''Resuming from snapshot '' @ p),
             Load_model (if gpus a \<le> 1 \<or> gpu_merge a then Default_device else Cpu0) p]
        \<and> (\<exists>c. snd (construct_model env a emb dg) = Inr c
               \<and> the_model c = load_model env p \<and> embed_model c = None))
   \<and> (snapshot a = Some p \<and> p \<noteq> [] \<longrightarrow>
        snd (schedule env a dg m) =
          Inr (fst (get_lr_schedule env (lr_schedule a) (num_train dg) (batch_size a) a)
                 @ log_dir_callbacks a
                 @ [if gpus a \<le> 1 then ModelCheckpoint p else TemplateModelCheckpoint m p],
               snd (get_lr_schedule env (lr_schedule a) (num_train dg) (batch_size a) a)))
   \<and> (snapshot a = None \<or> snapshot a = Some [] \<longrightarrow>
        snd (schedule env a dg m) =
          Inr (fst (get_lr_schedule env (lr_schedule a) (num_train dg) (batch_size a) a)
                 @ log_dir_callbacks a,
               snd (get_lr_schedule env (lr_schedule a) (num_train dg) (batch_size a) a)))
   \<and> (\<forall>pm fa. snapshot a = Some p \<and> p \<noteq> []
         \<and> Fit_generator pm fa \<in> set (fst (after_construction env a emb dg c))
         \<and> callbacks fa \<noteq> None \<longrightarrow>
        (\<exists>cbs. callbacks fa = Some cbs
           \<and> last cbs = (if gpus a \<le> 1 then ModelCheckpoint p
                          else TemplateModelCheckpoint (the_model c) p)))"
proof (intro conjI impI allI)
  show "resume_from env a = Some p \<longleftrightarrow> snapshot a = Some p \<and> p \<noteq> [] \<and> path_exists env p"
    by (rule resume_from_Some)
next
  assume "snapshot a = Some p \<and> p \<noteq> [] \<and> path_exists env p"
  then have r: "resume_from env a = Some p" by (simp add: resume_from_Some)
  show "fst (construct_model env a emb dg)
          = [Print (''Resuming from snapshot '' @ p),
             Load_model (if gpus a \<le> 1 \<or> gpu_merge a then Default_device else Cpu0) p]"
    by (simp add: construct_model_unfold Let_def build_model_resumed [OF r])
  show "\<exists>c. snd (construct_model env a emb dg) = Inr c
               \<and> the_model c = load_model env p \<and> embed_model c = None"
    by (simp add: construct_model_unfold Let_def build_model_resumed [OF r])
next
  assume "snapshot a = Some p \<and> p \<noteq> []"
  then show "snd (schedule env a dg m) =
          Inr (fst (get_lr_schedule env (lr_schedule a) (num_train dg) (batch_size a) a)
                 @ log_dir_callbacks a
                 @ [if gpus a \<le> 1 then ModelCheckpoint p else TemplateModelCheckpoint m p],
               snd (get_lr_schedule env (lr_schedule a) (num_train dg) (batch_size a) a))"
    by (simp add: schedule_result snapshot_callbacks_simps)
next
  assume "snapshot a = None \<or> snapshot a = Some []"
  then show "snd (schedule env a dg m) =
          Inr (fst (get_lr_schedule env (lr_schedule a) (num_train dg) (batch_size a) a)
                 @ log_dir_callbacks a,
               snd (get_lr_schedule env (lr_schedule a) (num_train dg) (batch_size a) a))"
    by (auto simp: schedule_result snapshot_callbacks_simps)
next
  fix pm fa
  assume h: "snapshot a = Some p \<and> p \<noteq> []
         \<and> Fit_generator pm fa \<in> set (fst (after_construction env a emb dg c))
         \<and> callbacks fa \<noteq> None"
  then have f: "Fit_generator pm fa \<in> set (fst (after_construction env a emb dg c))"
    and n: "callbacks fa \<noteq> None" by simp_all
  have "callbacks fa =
           Some (fst (get_lr_schedule env (lr_schedule a) (num_train dg) (batch_size a) a)
                   @ log_dir_callbacks a @ snapshot_callbacks a (the_model c))"
    by (rule after_construction_callbacks [OF f n])
  with h show "\<exists>cbs. callbacks fa = Some cbs
           \<and> last cbs = (if gpus a \<le> 1 then ModelCheckpoint p
                          else TemplateModelCheckpoint (the_model c) p)"
    by (simp add: snapshot_callbacks_simps)
qed

theorem snapshot_resume_and_checkpoint_witness:
  "snapshot (ex_args\<lparr> snapshot := Some ''snap.h5'' \<rparr>) = Some ''snap.h5''
   \<and> path_exists ex_env ''snap.h5''
   \<and> filter is_construction (fst (main ex_env (ex_args\<lparr> snapshot := Some ''snap.h5'' \<rparr>)))
       = [Load_model Default_device ''snap.h5'']
   \<and> concat (map fit_callbacks (fst (main ex_env (ex_args\<lparr> snapshot := Some ''snap.h5'' \<rparr>))))
       = [Some [Schedule_callback ''SGDR'', ModelCheckpoint ''snap.h5'']]
   \<and> filter is_construction (fst (main ex_env (ex_args\<lparr> snapshot := Some ''new.h5'' \<rparr>)))
       = [Build_network Default_device 2 ''simple'']
   \<and> concat (map fit_callbacks (fst (main ex_env (ex_args\<lparr> snapshot := Some ''new.h5'' \<rparr>))))
       = [Some [Schedule_callback ''SGDR'', ModelCheckpoint ''new.h5'']]
   \<and> fst (construct_model ex_env (ex_args\<lparr> snapshot := Some ''snap.h5'' \<rparr>) ex_matrix ex_dg)
       = [Print ''Resuming from snapshot snap.h5'', Load_model Default_device ''snap.h5'']
   \<and> snd (schedule ex_env (ex_args\<lparr> snapshot := Some ''snap.h5'', gpus := 2 \<rparr>) ex_dg ex_network)
       = Inr ([Schedule_callback ''SGDR'', TemplateModelCheckpoint ex_network ''snap.h5''], 5)"
proof -
  let ?a = "ex_args\<lparr> snapshot := Some ''snap.h5'' \<rparr>"
  let ?b = "ex_args\<lparr> snapshot := Some ''snap.h5'', gpus := 2 \<rparr>"
  have e: "path_exists ex_env ''snap.h5''" by (simp add: ex_env_def)
  have m1: "filter is_construction (fst (main ex_env ?a)) = [Load_model Default_device ''snap.h5'']"
    by code_simp
  have m2: "concat (map fit_callbacks (fst (main ex_env ?a)))
       = [Some [Schedule_callback ''SGDR'', ModelCheckpoint ''snap.h5'']]"
    by code_simp
  have m3: "filter is_construction (fst (main ex_env (ex_args\<lparr> snapshot := Some ''new.h5'' \<rparr>)))
       = [Build_network Default_device 2 ''simple'']"
    by code_simp
  have m4: "concat (map fit_callbacks (fst (main ex_env (ex_args\<lparr> snapshot := Some ''new.h5'' \<rparr>))))
       = [Some [Schedule_callback ''SGDR'', ModelCheckpoint ''new.h5'']]"
    by code_simp
  note T = snapshot_resume_and_checkpoint
  from T [where env = ex_env and a = ?a and p = "''snap.h5''" and emb = ex_matrix and dg = ex_dg] e
  have c: "fst (construct_model ex_env ?a ex_matrix ex_dg)
       = [Print ''Resuming from snapshot snap.h5'', Load_model Default_device ''snap.h5'']"
    by (simp add: ex_args_simps)
  have g: "get_lr_schedule ex_env s n b x = ([Schedule_callback ''SGDR''], 5)" for s n b x
    by (simp add: ex_env_def)
  from T [where env = ex_env and a = ?b and p = "''snap.h5''" and dg = ex_dg and m = ex_network]
  have s: "snd (schedule ex_env ?b ex_dg ex_network)
       = Inr ([Schedule_callback ''SGDR'', TemplateModelCheckpoint ex_network ''snap.h5''], 5)"
    by (simp add: g log_dir_callbacks_def nonempty_def ex_args_simps)
  from e m1 m2 m3 m4 c s show ?thesis by simp
qed

text \<open>
  C4 as it was stated fails where \<open>--snapshot\<close> is given as the empty string: the test
  \<open>if args.snapshot\<close> is false, and the training is given the callback of the schedule
  alone.
\<close>

theorem checkpoint_for_empty_snapshot_counterexample:
  "snapshot (ex_args\<lparr> snapshot := Some '''' \<rparr>) = Some ''''
   \<and> snd (schedule ex_env (ex_args\<lparr> snapshot := Some '''' \<rparr>) ex_dg ex_network)
       = Inr ([Schedule_callback ''SGDR''], 5)
   \<and> concat (map fit_callbacks (fst (main ex_env (ex_args\<lparr> snapshot := Some '''' \<rparr>))))
       = [Some [Schedule_callback ''SGDR'']]"
  by code_simp

end
